theory Spec2Isabelle
  imports Complex_Main "HOL-Library.Word"
begin

section \<open>JavaScript values and string primitives\<close>

text \<open>
  The two servers (\<^verbatim>\<open>src/server.js\<close> and \<^verbatim>\<open>src/backend-server.js\<close>) are JavaScript.
  Strings are modelled as \<^typ>\<open>string\<close> (byte lists; a character outside ASCII stands
  as its UTF-8 bytes). White space is the full set of ECMAScript. Lower-casing is the
  ASCII part of \<^verbatim>\<open>toLowerCase\<close>: the code only looks for ASCII letters in its
  result, and no character outside ASCII lower-cases to one of those it looks for.

  A JavaScript number is a double. \<open>Fin r\<close> stands for the double nearest to the
  rational \<open>r\<close>; \<open>to_number\<close> keeps the three outcomes of rounding that the code can
  observe through \<^verbatim>\<open>x || null\<close>: a value that rounds to zero, one that stays
  finite and nonzero, and one that overflows to an infinity.
\<close>

datatype jsnum = NaN | PosInf | NegInf | Fin rat

datatype jsval = JUndef | JNull | JBool bool | JNum jsnum | JStr string
  | JArr "jsval list" | JObj "(string \<times> jsval) list"

datatype err_kind = ErrorK | TypeErrorK | ReferenceErrorK | SyntaxErrorK | RangeErrorK

text \<open>A thrown exception: its constructor and its \<^verbatim>\<open>message\<close>.\<close>

datatype js_error = Thrown err_kind string


text \<open>Truthiness (\<^verbatim>\<open>ToBoolean\<close>).\<close>

fun truthy :: "jsval \<Rightarrow> bool" where
  "truthy JUndef = False"
| "truthy JNull = False"
| "truthy (JBool b) = b"
| "truthy (JNum n) = (n \<noteq> NaN \<and> n \<noteq> Fin 0)"
| "truthy (JStr s) = (s \<noteq> [])"
| "truthy (JArr xs) = True"
| "truthy (JObj kvs) = True"

text \<open>\<^verbatim>\<open>a || b\<close> on values already computed (property reads have no effects).\<close>

definition js_or :: "jsval \<Rightarrow> jsval \<Rightarrow> jsval" where
  "js_or a b = (if truthy a then a else b)"

text \<open>
  \<^verbatim>\<open>i.name\<close> for the field names the adapters read. None of them is a property of a
  built-in prototype, so on a string, number, boolean or array the read is
  \<^verbatim>\<open>undefined\<close>; on \<^verbatim>\<open>null\<close> and \<^verbatim>\<open>undefined\<close> the read throws
  (\<open>readable\<close> is false).
\<close>

fun get_prop :: "jsval \<Rightarrow> string \<Rightarrow> jsval" where
  "get_prop (JObj kvs) k = (case map_of kvs k of None \<Rightarrow> JUndef | Some v \<Rightarrow> v)"
| "get_prop _ k = JUndef"

fun readable :: "jsval \<Rightarrow> bool" where
  "readable JUndef = False"
| "readable JNull = False"
| "readable _ = True"

definition is_digit :: "char \<Rightarrow> bool" where
  "is_digit c = (c \<in> set ''0123456789'')"

definition is_upper :: "char \<Rightarrow> bool" where
  "is_upper c = (c \<in> set ''ABCDEFGHIJKLMNOPQRSTUVWXYZ'')"

definition lower_char :: "char \<Rightarrow> char" where
  "lower_char c =
    (case map_of (zip ''ABCDEFGHIJKLMNOPQRSTUVWXYZ'' ''abcdefghijklmnopqrstuvwxyz'') c of
       None \<Rightarrow> c | Some l \<Rightarrow> l)"

definition toLowerCase :: "string \<Rightarrow> string" where
  "toLowerCase s = map lower_char s"

fun starts_with :: "string \<Rightarrow> string \<Rightarrow> bool" where
  "starts_with s [] = True"
| "starts_with [] (p # ps) = False"
| "starts_with (c # cs) (p # ps) = (c = p \<and> starts_with cs ps)"

text \<open>
  The white space of ECMAScript (\<^verbatim>\<open>WhiteSpace\<close> and \<^verbatim>\<open>LineTerminator\<close>), which is
  the class \<^verbatim>\<open>\s\<close> and what \<^verbatim>\<open>parseFloat\<close> skips, each character as its UTF-8
  bytes: U+0009 to U+000D, U+0020, U+00A0, U+1680, U+2000 to U+200A, U+2028, U+2029,
  U+202F, U+205F, U+3000 and U+FEFF.
\<close>

definition space_chars :: "string list" where
  "space_chars =
    [[CHR 0x09], [CHR 0x0A], [CHR 0x0B], [CHR 0x0C], [CHR 0x0D], [CHR 0x20],
     [CHR 0xC2, CHR 0xA0],
     [CHR 0xE1, CHR 0x9A, CHR 0x80],
     [CHR 0xE2, CHR 0x80, CHR 0x80], [CHR 0xE2, CHR 0x80, CHR 0x81],
     [CHR 0xE2, CHR 0x80, CHR 0x82], [CHR 0xE2, CHR 0x80, CHR 0x83],
     [CHR 0xE2, CHR 0x80, CHR 0x84], [CHR 0xE2, CHR 0x80, CHR 0x85],
     [CHR 0xE2, CHR 0x80, CHR 0x86], [CHR 0xE2, CHR 0x80, CHR 0x87],
     [CHR 0xE2, CHR 0x80, CHR 0x88], [CHR 0xE2, CHR 0x80, CHR 0x89],
     [CHR 0xE2, CHR 0x80, CHR 0x8A],
     [CHR 0xE2, CHR 0x80, CHR 0xA8], [CHR 0xE2, CHR 0x80, CHR 0xA9],
     [CHR 0xE2, CHR 0x80, CHR 0xAF],
     [CHR 0xE2, CHR 0x81, CHR 0x9F],
     [CHR 0xE3, CHR 0x80, CHR 0x80],
     [CHR 0xEF, CHR 0xBB, CHR 0xBF]]"

text \<open>The number of bytes of the white-space character at the head of a text, 0 when
  the text does not start with one.\<close>

definition space_width :: "string \<Rightarrow> nat" where
  "space_width s = (case find (starts_with s) space_chars of None \<Rightarrow> 0 | Some p \<Rightarrow> length p)"

text \<open>Dropping the leading white space, as \<^verbatim>\<open>parseFloat\<close> does.\<close>

function skip_space :: "string \<Rightarrow> string" where
  "skip_space s = (if space_width s = 0 then s else skip_space (drop (space_width s) s))"
  by pat_completeness auto
termination
proof (relation "measure length")
  show "wf (measure length)" by simp
next
  fix s :: string
  assume w: "space_width s \<noteq> 0"
  then have "s \<noteq> []"
    by (auto simp: space_width_def space_chars_def)
  with w show "(drop (space_width s) s, s) \<in> measure length"
    by simp
qed

declare skip_space.simps [simp del]

text \<open>\<^verbatim>\<open>s.replace(/\s/g, '')\<close>.\<close>

function remove_space :: "string \<Rightarrow> string" where
  "remove_space s =
    (if s = [] then []
     else if space_width s = 0 then hd s # remove_space (tl s)
     else remove_space (drop (space_width s) s))"
  by pat_completeness auto
termination
  by (relation "measure length") auto

declare remove_space.simps [simp del]

text \<open>\<^verbatim>\<open>s.includes(sub)\<close>.\<close>

fun js_includes :: "string \<Rightarrow> string \<Rightarrow> bool" where
  "js_includes [] sub = (sub = [])"
| "js_includes (c # cs) sub = (starts_with (c # cs) sub \<or> js_includes cs sub)"

text \<open>\<^verbatim>\<open>/lit/i.test(s)\<close> for a literal \<open>lit\<close> of lower-case ASCII letters and spaces.\<close>

definition test_ci :: "string \<Rightarrow> string \<Rightarrow> bool" where
  "test_ci lit s = js_includes (toLowerCase s) lit"

text \<open>\<^verbatim>\<open>s.replace(',', '.')\<close>: a string pattern replaces the first occurrence only.\<close>

fun replace_first_comma :: "string \<Rightarrow> string" where
  "replace_first_comma [] = []"
| "replace_first_comma (c # cs) =
     (if c = CHR '','' then CHR ''.'' # cs else c # replace_first_comma cs)"

text \<open>\<^verbatim>\<open>s.replace(/[^0-9.]/g, '')\<close> and \<^verbatim>\<open>s.replace(/[^0-9.,]/g, '')\<close>.\<close>

definition strip_non_digit_dot :: "string \<Rightarrow> string" where
  "strip_non_digit_dot s = filter (\<lambda>c. is_digit c \<or> c = CHR ''.'') s"

definition strip_non_digit_dot_comma :: "string \<Rightarrow> string" where
  "strip_non_digit_dot_comma s = filter (\<lambda>c. is_digit c \<or> c = CHR ''.'' \<or> c = CHR '','') s"

subsection \<open>parseFloat\<close>

definition digit_val :: "char \<Rightarrow> nat" where
  "digit_val c =
    (case map_of (zip ''0123456789'' [0, 1, 2, 3, 4, 5, 6, 7, 8, 9]) c of
       None \<Rightarrow> 0 | Some d \<Rightarrow> d)"

definition digits_val :: "string \<Rightarrow> nat" where
  "digits_val ds = foldl (\<lambda>acc c. 10 * acc + digit_val c) 0 ds"

text \<open>
  Rounding to a double, as far as the code observes it: at most half the least
  subnormal rounds to zero, at least the largest double plus half an ulp rounds to an
  infinity.
\<close>

definition to_number :: "rat \<Rightarrow> jsnum" where
  "to_number r =
    (if \<bar>r\<bar> \<le> 1 / 2 ^ 1075 then Fin 0
     else if 2 ^ 1024 - 2 ^ 970 \<le> \<bar>r\<bar> then (if r < 0 then NegInf else PosInf)
     else Fin r)"

text \<open>An optional sign: whether it is a minus, and the rest.\<close>

fun take_sign :: "string \<Rightarrow> bool \<times> string" where
  "take_sign [] = (False, [])"
| "take_sign (c # cs) =
     (if c = CHR ''-'' then (True, cs) else if c = CHR ''+'' then (False, cs)
      else (False, c # cs))"

text \<open>The value of an \<^verbatim>\<open>ExponentPart\<close> at the head of the text, 0 when there is none.\<close>

definition exponent_part :: "string \<Rightarrow> int" where
  "exponent_part s =
    (case s of
       [] \<Rightarrow> 0
     | c # cs \<Rightarrow>
         if c = CHR ''e'' \<or> c = CHR ''E'' then
           (let (neg, r) = take_sign cs; ds = takeWhile is_digit r
            in if ds = [] then 0
               else if neg then - int (digits_val ds) else int (digits_val ds))
         else 0)"

text \<open>The digits after a decimal point at the head of the text, and the rest.\<close>

fun fraction_part :: "string \<Rightarrow> string \<times> string" where
  "fraction_part [] = ([], [])"
| "fraction_part (c # cs) =
     (if c = CHR ''.'' then (takeWhile is_digit cs, dropWhile is_digit cs)
      else ([], c # cs))"

definition scale10 :: "rat \<Rightarrow> int \<Rightarrow> rat" where
  "scale10 m e = (if 0 \<le> e then m * 10 ^ nat e else m / 10 ^ nat (- e))"

definition negate :: "jsnum \<Rightarrow> jsnum" where
  "negate n = (case n of NaN \<Rightarrow> NaN | PosInf \<Rightarrow> NegInf | NegInf \<Rightarrow> PosInf | Fin r \<Rightarrow> Fin (- r))"

text \<open>
  \<^verbatim>\<open>parseFloat(s)\<close> on a string: skip leading white space, then the value of the
  longest prefix that is a \<^verbatim>\<open>StrDecimalLiteral\<close>, \<^verbatim>\<open>NaN\<close> when there is none.
\<close>

definition parseFloat :: "string \<Rightarrow> jsnum" where
  "parseFloat s =
    (let (neg, u) = take_sign (skip_space s) in
     if starts_with u ''Infinity'' then (if neg then NegInf else PosInf)
     else
       let ip = takeWhile is_digit u;
           (fp, r) = fraction_part (dropWhile is_digit u)
       in if ip = [] \<and> fp = [] then NaN
          else
            let v = to_number (scale10 (of_nat (digits_val (ip @ fp)))
                      (exponent_part r - int (length fp)))
            in if neg then negate v else v)"

text \<open>\<^verbatim>\<open>x || null\<close> for a number \<open>x\<close>: zero and \<^verbatim>\<open>NaN\<close> are falsy.\<close>

definition num_or_null :: "jsnum \<Rightarrow> jsval" where
  "num_or_null n = js_or (JNum n) JNull"

subsection \<open>Monetary text of a table cell\<close>

text \<open>
  \<^verbatim>\<open>cols[i] || ''\<close> and \<^verbatim>\<open>cols[i] || null\<close> for the array of trimmed cell texts of a
  row: an index beyond the row reads \<^verbatim>\<open>undefined\<close>.
\<close>

definition col_or_empty :: "string list \<Rightarrow> nat \<Rightarrow> string" where
  "col_or_empty cols i = (if i < length cols then cols ! i else [])"

definition col_or_null :: "string list \<Rightarrow> nat \<Rightarrow> jsval" where
  "col_or_null cols i = (if i < length cols \<and> cols ! i \<noteq> [] then JStr (cols ! i) else JNull)"

text \<open>
  \<^verbatim>\<open>parseFloat(t.replace(/[^0-9.]/g,'')) || null\<close>: \<^verbatim>\<open>fetchANSV\<close>,
  \<^verbatim>\<open>fetchSantaFe\<close>, \<^verbatim>\<open>fetchPosadas\<close>, \<^verbatim>\<open>fetchCorrientes\<close>, and \<^verbatim>\<open>fetchCABA\<close> of
  \<^verbatim>\<open>server.js\<close>.
\<close>

definition importe_dot :: "string \<Rightarrow> jsval" where
  "importe_dot t = num_or_null (parseFloat (strip_non_digit_dot t))"

text \<open>
  \<^verbatim>\<open>parseFloat(t.replace(/[^0-9.,]/g,'').replace(',','.')) || null\<close>:
  \<^verbatim>\<open>fetchRosario\<close>, \<^verbatim>\<open>fetchSantaRosa\<close>, \<^verbatim>\<open>fetchMendoza\<close> and \<^verbatim>\<open>fetchCABA\<close> of
  \<^verbatim>\<open>backend-server.js\<close>.
\<close>

definition importe_comma :: "string \<Rightarrow> jsval" where
  "importe_comma t =
     num_or_null (parseFloat (replace_first_comma (strip_non_digit_dot_comma t)))"

section \<open>Canonical records and per-item normalization\<close>

text \<open>
  The response shape of both servers:
  \<^verbatim>\<open>{ acta, fecha, descripcion, lugar, importe, estado, jurisdiccion }\<close>. A field
  holds whatever JavaScript value the adapter's expression evaluates to.
\<close>

record infraccion =
  acta :: jsval
  fecha :: jsval
  descripcion :: jsval
  lugar :: jsval
  importe :: jsval
  estado :: jsval
  jurisdiccion :: jsval

definition bind_err :: "js_error + 'a \<Rightarrow> ('a \<Rightarrow> js_error + 'b) \<Rightarrow> js_error + 'b" where
  "bind_err m f = (case m of Inl e \<Rightarrow> Inl e | Inr x \<Rightarrow> f x)"

text \<open>\<^verbatim>\<open>a || b || ... || d\<close>.\<close>

fun or_chain :: "jsval list \<Rightarrow> jsval \<Rightarrow> jsval" where
  "or_chain [] d = d"
| "or_chain (a # as) d = (if truthy a then a else or_chain as d)"

text \<open>
  \<^verbatim>\<open>ToString\<close> of a value that \<^verbatim>\<open>JSON.parse\<close> can build. An object whose own
  key \<^verbatim>\<open>toString\<close> shadows the prototype's method has no callable conversion left
  and throws a \<^verbatim>\<open>TypeError\<close>; an array joins the conversions of its elements.
\<close>

fun tostring_throws :: "jsval \<Rightarrow> bool" where
  "tostring_throws (JObj kvs) = (''toString'' \<in> set (map fst kvs))"
| "tostring_throws (JArr xs) = list_ex tostring_throws xs"
| "tostring_throws v = False"

definition cannot_convert :: js_error where
  "cannot_convert = Thrown TypeErrorK ''Cannot convert object to primitive value''"

text \<open>
  \<^verbatim>\<open>parseFloat(v)\<close> is \<^verbatim>\<open>parseFloat(ToString(v))\<close>. The text of a number parses back
  to that number; the text of an array is its elements' texts joined by commas, and a
  comma ends every decimal literal, so only the first element counts.
\<close>

fun parseFloat_text :: "jsval \<Rightarrow> jsnum" where
  "parseFloat_text (JNum n) = n"
| "parseFloat_text (JStr s) = parseFloat s"
| "parseFloat_text (JArr (x # xs)) = parseFloat_text x"
| "parseFloat_text v = NaN"

definition parseFloat_val :: "jsval \<Rightarrow> js_error + jsnum" where
  "parseFloat_val v = (if tostring_throws v then Inl cannot_convert else Inr (parseFloat_text v))"

text \<open>\<^verbatim>\<open>parseFloat(i.a || i.b || 0) || null\<close> for the field names \<open>names\<close>.\<close>

definition importe_json :: "string list \<Rightarrow> jsval \<Rightarrow> js_error + jsval" where
  "importe_json names i =
     bind_err (parseFloat_val (or_chain (map (get_prop i) names) (JNum (Fin 0))))
       (\<lambda>n. Inr (num_or_null n))"

text \<open>\<^verbatim>\<open>s.toLowerCase().includes('pag') ? 'pagada' : 'pendiente'\<close>.\<close>

definition estado_of_text :: "string \<Rightarrow> jsval" where
  "estado_of_text s =
     (if js_includes (toLowerCase s) ''pag'' then JStr ''pagada'' else JStr ''pendiente'')"

text \<open>\<^verbatim>\<open>v.toLowerCase()\<close>: only a string has the method.\<close>

definition toLowerCase_val :: "jsval \<Rightarrow> js_error + string" where
  "toLowerCase_val v =
     (case v of JStr s \<Rightarrow> Inr (toLowerCase s)
      | _ \<Rightarrow> Inl (Thrown TypeErrorK ''toLowerCase is not a function''))"

text \<open>
  \<^verbatim>\<open>(i.a || i.b || 'pendiente').toLowerCase().includes('pag') ? 'pagada' : 'pendiente'\<close>.
\<close>

definition estado_json :: "string list \<Rightarrow> jsval \<Rightarrow> js_error + jsval" where
  "estado_json names i =
     bind_err (toLowerCase_val (or_chain (map (get_prop i) names) (JStr ''pendiente'')))
       (\<lambda>s. Inr (if js_includes s ''pag'' then JStr ''pagada'' else JStr ''pendiente''))"

definition cannot_read :: js_error where
  "cannot_read = Thrown TypeErrorK ''Cannot read properties of null''"

subsection \<open>The importe expression of every construction site\<close>

text \<open>Sites that build a record from the cell texts of a table row.\<close>

datatype row_site =
    ANSV_row | SantaFe_row | Posadas_row | Corrientes_row
  | Rosario_row | SantaRosa_row | Mendoza_row
  | Server_ANSV_row | Server_CABA_row | Server_SantaFe_row

fun importe_row :: "row_site \<Rightarrow> string list \<Rightarrow> jsval" where
  "importe_row ANSV_row cols = importe_dot (col_or_empty cols 4)"
| "importe_row SantaFe_row cols = importe_dot (col_or_empty cols 4)"
| "importe_row Posadas_row cols = importe_dot (col_or_empty cols 4)"
| "importe_row Corrientes_row cols = importe_dot (col_or_empty cols 4)"
| "importe_row Rosario_row cols = importe_comma (col_or_empty cols 4)"
| "importe_row SantaRosa_row cols = importe_comma (col_or_empty cols 4)"
| "importe_row Mendoza_row cols =
     importe_comma (if col_or_empty cols 8 \<noteq> [] then col_or_empty cols 8
                    else col_or_empty cols 7)"
| "importe_row Server_ANSV_row cols = importe_dot (col_or_empty cols 4)"
| "importe_row Server_CABA_row cols = importe_dot (col_or_empty cols 4)"
| "importe_row Server_SantaFe_row cols = importe_dot (col_or_empty cols 4)"

text \<open>
  \<^verbatim>\<open>fetchCABA\<close> of \<^verbatim>\<open>backend-server.js\<close> reads the text of a card element:
  \<^verbatim>\<open>getText\<close> gives the trimmed text, or \<^verbatim>\<open>null\<close> when it is empty.
\<close>

definition importe_card :: "string option \<Rightarrow> jsval" where
  "importe_card g = importe_comma (case g of None \<Rightarrow> [] | Some t \<Rightarrow> t)"

text \<open>Sites that build a record from an item of a parsed JSON body.\<close>

datatype json_site =
    ANSV_json | PBA_json | EntreRios_json | Misiones_json
  | Chaco_fotomultas | Chaco_caminera | Neuquen_json
  | MendozaCaminera_sdt | MendozaCaminera_objetos | MendozaCaminera_hiddens
  | Salta_json | Cordoba_json | Server_ANSV_json | Server_PBA_json

fun importe_fields :: "json_site \<Rightarrow> string list" where
  "importe_fields ANSV_json = [''importe'', ''monto'']"
| "importe_fields PBA_json = [''importe'', ''monto'', ''deuda'']"
| "importe_fields EntreRios_json = [''importe'', ''monto'', ''deuda'']"
| "importe_fields Misiones_json = [''importe'', ''monto'', ''deuda'']"
| "importe_fields Chaco_fotomultas = [''importe'', ''importe_1vto'']"
| "importe_fields Chaco_caminera = [''importe_1vto'']"
| "importe_fields Neuquen_json = [''importe'', ''monto'']"
| "importe_fields MendozaCaminera_sdt = [''importeTotal'']"
| "importe_fields MendozaCaminera_objetos = [''cuotaDeudaTotal'', ''saldoCap'']"
| "importe_fields MendozaCaminera_hiddens = [''cuotaDeudaTotal'', ''saldoCap'']"
| "importe_fields Salta_json = [''importe'', ''monto'']"
| "importe_fields Cordoba_json = [''saldoTotal'']"
| "importe_fields Server_ANSV_json = [''importe'', ''monto'']"
| "importe_fields Server_PBA_json = [''importe'', ''monto'', ''deuda'']"

definition importe_item :: "json_site \<Rightarrow> jsval \<Rightarrow> js_error + jsval" where
  "importe_item site i =
     (if \<not> readable i then Inl cannot_read else importe_json (importe_fields site) i)"

text \<open>What the claims say of an importe: \<^verbatim>\<open>null\<close>, or a number that is not zero.\<close>

fun null_or_nonzero :: "jsval \<Rightarrow> bool" where
  "null_or_nonzero JNull = True"
| "null_or_nonzero (JNum n) = (n \<noteq> NaN \<and> n \<noteq> Fin 0)"
| "null_or_nonzero v = False"

subsection \<open>Record builders\<close>

text \<open>The table row of \<^verbatim>\<open>fetchANSV\<close>, the same in both servers.\<close>

definition ansv_row :: "string list \<Rightarrow> infraccion" where
  "ansv_row cols =
     \<lparr> acta = col_or_null cols 0,
       fecha = col_or_null cols 1,
       descripcion = col_or_null cols 2,
       lugar = col_or_null cols 3,
       importe = importe_row ANSV_row cols,
       estado = estado_of_text (col_or_empty cols 5),
       jurisdiccion = js_or (col_or_null cols 6) (JStr ''Nacional'') \<rparr>"

text \<open>
  The item of the JSON fallback of \<^verbatim>\<open>fetchANSV\<close>, the same in both servers. Its
  \<^verbatim>\<open>estado\<close> is \<^verbatim>\<open>(i.estado||'pendiente').toLowerCase()\<close>.
\<close>

definition ansv_item :: "jsval \<Rightarrow> js_error + infraccion" where
  "ansv_item i =
     (if \<not> readable i then Inl cannot_read
      else
        bind_err (importe_item ANSV_json i) (\<lambda>imp.
        bind_err (toLowerCase_val (or_chain [get_prop i ''estado''] (JStr ''pendiente'')))
          (\<lambda>est.
        Inr \<lparr> acta = or_chain [get_prop i ''nroActa'', get_prop i ''acta''] JNull,
              fecha = or_chain [get_prop i ''fecha''] JNull,
              descripcion = or_chain [get_prop i ''descripcion'', get_prop i ''motivo''] JNull,
              lugar = or_chain [get_prop i ''lugar'', get_prop i ''direccion''] JNull,
              importe = imp,
              estado = JStr est,
              jurisdiccion = or_chain [get_prop i ''jurisdiccion''] (JStr ''Nacional'') \<rparr>)))"

text \<open>The item of \<^verbatim>\<open>fetchPBA\<close> (\<^verbatim>\<open>backend-server.js\<close>).\<close>

definition pba_item :: "jsval \<Rightarrow> js_error + infraccion" where
  "pba_item i =
     (if \<not> readable i then Inl cannot_read
      else
        bind_err (importe_item PBA_json i) (\<lambda>imp.
        bind_err (estado_json [''estado''] i) (\<lambda>est.
        Inr \<lparr> acta = or_chain
                  [get_prop i ''nroActa'', get_prop i ''numeroCausa'', get_prop i ''acta'']
                  JNull,
              fecha = or_chain [get_prop i ''fechaInfraccion'', get_prop i ''fecha''] JNull,
              descripcion = or_chain
                  [get_prop i ''descripcionFalta'', get_prop i ''descripcion'',
                   get_prop i ''articulo''] JNull,
              lugar = or_chain [get_prop i ''lugar'', get_prop i ''juzgado''] JNull,
              importe = imp,
              estado = est,
              jurisdiccion = or_chain [get_prop i ''juzgado'', get_prop i ''jurisdiccion'']
                  (JStr ''Provincia de Buenos Aires'') \<rparr>)))"

text \<open>
  The table row of \<^verbatim>\<open>fetchPosadas\<close>; its \<^verbatim>\<open>estado\<close> looks at the text of the whole
  body.
\<close>

definition posadas_row :: "string \<Rightarrow> string list \<Rightarrow> infraccion" where
  "posadas_row bodyText cols =
     \<lparr> acta = col_or_null cols 0,
       fecha = col_or_null cols 1,
       descripcion = col_or_null cols 2,
       lugar = col_or_null cols 3,
       importe = importe_row Posadas_row cols,
       estado = estado_of_text bodyText,
       jurisdiccion = JStr ''Municipio de Posadas'' \<rparr>"

text \<open>The table row of \<^verbatim>\<open>fetchRosario\<close>.\<close>

definition rosario_row :: "string list \<Rightarrow> infraccion" where
  "rosario_row cols =
     \<lparr> acta = col_or_null cols 0,
       fecha = col_or_null cols 1,
       descripcion = col_or_null cols 2,
       lugar = col_or_null cols 3,
       importe = importe_row Rosario_row cols,
       estado = estado_of_text (col_or_empty cols 5),
       jurisdiccion = JStr ''Rosario'' \<rparr>"

text \<open>The table row of \<^verbatim>\<open>fetchCorrientes\<close>.\<close>

definition corrientes_row :: "string list \<Rightarrow> infraccion" where
  "corrientes_row cols =
     \<lparr> acta = col_or_null cols 0,
       fecha = col_or_null cols 1,
       descripcion = col_or_null cols 2,
       lugar = col_or_null cols 3,
       importe = importe_row Corrientes_row cols,
       estado = estado_of_text (col_or_empty cols 5),
       jurisdiccion = JStr ''Corrientes'' \<rparr>"

subsection \<open>The item of fetchSalta\<close>

text \<open>
  Two built-ins are taken as parameters: the decimal text of a number
  (\<^verbatim>\<open>Number::toString\<close>) and \<^verbatim>\<open>new Date(v).toISOString()\<close>, which throws a
  \<^verbatim>\<open>RangeError\<close> on an invalid date.
\<close>

record builtins =
  number_to_string :: "jsnum \<Rightarrow> string"
  date_iso :: "jsval \<Rightarrow> js_error + string"

fun join_with :: "string \<Rightarrow> string list \<Rightarrow> string" where
  "join_with sep [] = []"
| "join_with sep [x] = x"
| "join_with sep (x # y # ys) = x @ sep @ join_with sep (y # ys)"

fun to_string :: "(jsnum \<Rightarrow> string) \<Rightarrow> jsval \<Rightarrow> string" where
  "to_string ns JUndef = ''undefined''"
| "to_string ns JNull = ''null''"
| "to_string ns (JBool b) = (if b then ''true'' else ''false'')"
| "to_string ns (JNum n) = ns n"
| "to_string ns (JStr s) = s"
| "to_string ns (JArr xs) =
     join_with '',''
       (map (\<lambda>x. if x = JUndef \<or> x = JNull then [] else to_string ns x) xs)"
| "to_string ns (JObj kvs) = ''[object Object]''"

definition ToString :: "builtins \<Rightarrow> jsval \<Rightarrow> js_error + string" where
  "ToString B v =
     (if tostring_throws v then Inl cannot_convert
      else Inr (to_string (number_to_string B) v))"

text \<open>\<^verbatim>\<open>xs.filter(Boolean).join(sep) || null\<close>.\<close>

fun collect :: "(js_error + 'a) list \<Rightarrow> js_error + 'a list" where
  "collect [] = Inr []"
| "collect (m # ms) = bind_err m (\<lambda>x. bind_err (collect ms) (\<lambda>xs. Inr (x # xs)))"

definition join_truthy :: "builtins \<Rightarrow> string \<Rightarrow> jsval list \<Rightarrow> js_error + jsval" where
  "join_truthy B sep vs =
     bind_err (collect (map (ToString B) (filter truthy vs)))
       (\<lambda>ts. Inr (js_or (JStr (join_with sep ts)) JNull))"

text \<open>The separators of the source, as UTF-8: an en dash, a degree sign, a middle dot.\<close>

definition en_dash_sep :: string where
  "en_dash_sep = [CHR 0x20, CHR 0xE2, CHR 0x80, CHR 0x93, CHR 0x20]"

definition numero_prefix :: string where
  "numero_prefix = [CHR ''N'', CHR 0xC2, CHR 0xB0, CHR 0x20]"

definition middle_dot_sep :: string where
  "middle_dot_sep = [CHR 0x20, CHR 0xC2, CHR 0xB7, CHR 0x20]"

definition salta_item :: "builtins \<Rightarrow> jsval \<Rightarrow> js_error + infraccion" where
  "salta_item B i =
     (if \<not> readable i then Inl cannot_read
      else
        bind_err (ToString B
           (or_chain [get_prop i ''numeroObligacionImpuesto'', get_prop i ''acta''] (JStr [])))
          (\<lambda>act.
        bind_err (if truthy (get_prop i ''fechaInfraccion'')
                  then bind_err (date_iso B (get_prop i ''fechaInfraccion''))
                         (\<lambda>d. Inr (JStr (take 10 d)))
                  else Inr JNull) (\<lambda>fec.
        bind_err (join_truthy B en_dash_sep [get_prop i ''descripcion'', get_prop i ''articulo''])
          (\<lambda>des.
        bind_err (if truthy (get_prop i ''altura'')
                  then bind_err (ToString B (get_prop i ''altura''))
                         (\<lambda>a. Inr (JStr (numero_prefix @ a)))
                  else Inr JNull) (\<lambda>alt.
        bind_err (join_truthy B '' '' [get_prop i ''calle'', alt]) (\<lambda>lug.
        bind_err (importe_item Salta_json i) (\<lambda>imp.
        bind_err (estado_json [''estadoPlanPago'', ''estado''] i) (\<lambda>est.
        bind_err (if truthy (get_prop i ''titular'')
                  then bind_err (ToString B (get_prop i ''titular''))
                         (\<lambda>t. Inr (middle_dot_sep @ t))
                  else Inr []) (\<lambda>tit.
        Inr \<lparr> acta = JStr act, fecha = fec, descripcion = des, lugar = lug,
              importe = imp, estado = est,
              jurisdiccion = JStr (''Salta Capital'' @ tit) \<rparr>)))))))))"

section \<open>Adapters\<close>

text \<open>
  What an adapter reads of a response. The servers read the body through libraries
  (cheerio's selectors, \<^verbatim>\<open>JSON.parse\<close>, regular expressions on the markup); each
  field is the result of one such reading:
  \<^item> \<open>html\<close>: \<^verbatim>\<open>String(res.data)\<close>;
  \<^item> \<open>hidden\<close>: \<^verbatim>\<open>$('input[name="..."]').val()\<close>;
  \<^item> \<open>sitekey\<close>: the group of \<^verbatim>\<open>/data-sitekey="([^"]+)"/\<close>;
  \<^item> \<open>rows\<close>: the rows the adapter's selector matches, each as the trimmed texts of
    its \<^verbatim>\<open>td\<close> cells;
  \<^item> \<open>body_text\<close>: \<^verbatim>\<open>$('body').text()\<close>;
  \<^item> \<open>parsed_json\<close>: \<^verbatim>\<open>JSON.parse\<close> of the body, \<open>None\<close> when it throws;
  \<^item> \<open>error_summary\<close>: the trimmed text of \<^verbatim>\<open>.govuk-error-summary\<close> when one exists;
  \<^item> \<open>jsessionid\<close>: the \<^verbatim>\<open>JSESSIONID\<close> of the \<^verbatim>\<open>Set-Cookie\<close> headers.
\<close>

record page =
  html :: string
  hidden :: "string \<Rightarrow> string option"
  sitekey :: "string option"
  rows :: "string list list"
  body_text :: string
  parsed_json :: "jsval option"
  error_summary :: "string option"
  jsessionid :: "string option"

text \<open>Every request an adapter sends, the captcha provider's included.\<close>

datatype request =
    Get string
  | Post string "(string \<times> string) list"
  | Recaptcha string string

text \<open>The outside world: what each request answers, or the error it rejects with.\<close>

record net =
  http_get :: "string \<Rightarrow> js_error + page"
  http_post :: "string \<Rightarrow> (string \<times> string) list \<Rightarrow> js_error + page"
  recaptcha :: "string \<Rightarrow> string \<Rightarrow> js_error + string"

type_synonym outcome = "(js_error + infraccion list) \<times> request list"

text \<open>
  What reaches an adapter as \<^verbatim>\<open>res.data\<close>. The default \<^verbatim>\<open>transformResponse\<close> of
  axios runs \<^verbatim>\<open>JSON.parse\<close> on every text body that is not empty: a body that is
  JSON text arrives as the parsed value, any other body as the text itself.
  \<^verbatim>\<open>JSON.parse\<close> is the parameter \<open>json_parse\<close>, \<open>None\<close> where it throws.
\<close>

definition axios_data :: "(string \<Rightarrow> jsval option) \<Rightarrow> string \<Rightarrow> jsval" where
  "axios_data json_parse body =
     (if body = [] then JStr []
      else case json_parse body of None \<Rightarrow> JStr body | Some v \<Rightarrow> v)"

text \<open>
  The page that \<^verbatim>\<open>fetchANSV\<close> reads from the body of its POST:
  \<^verbatim>\<open>String(res.data)\<close>, the table rows cheerio finds in that text (\<open>table_rows\<close>) and
  \<^verbatim>\<open>JSON.parse\<close> of that text. The fields it does not read are left empty.
\<close>

definition ansv_response ::
    "(string \<Rightarrow> jsval option) \<Rightarrow> builtins \<Rightarrow> (string \<Rightarrow> string list list) \<Rightarrow> string
     \<Rightarrow> js_error + page" where
  "ansv_response json_parse B table_rows body =
     bind_err (ToString B (axios_data json_parse body)) (\<lambda>resText.
       Inr \<lparr> html = resText, hidden = (\<lambda>name. None), sitekey = None,
             rows = table_rows resText, body_text = [], parsed_json = json_parse resText,
             error_summary = None, jsessionid = None \<rparr>)"

subsection \<open>fetchANSV (backend-server.js)\<close>

text \<open>\<^verbatim>\<open>/^[A-Z]{3}\d{3}$/\<close> and \<^verbatim>\<open>/^[A-Z]{2}\d{3}[A-Z]{2}$/\<close>.\<close>

definition old_format :: "string \<Rightarrow> bool" where
  "old_format d =
     (length d = 6 \<and> list_all is_upper (take 3 d) \<and> list_all is_digit (drop 3 d))"

definition mercosur_format :: "string \<Rightarrow> bool" where
  "mercosur_format d =
     (length d = 7 \<and> list_all is_upper (take 2 d) \<and> list_all is_digit (take 3 (drop 2 d))
      \<and> list_all is_upper (drop 5 d))"

definition a_acute :: string where
  "a_acute = [CHR 0xC3, CHR 0xA1]"

definition o_acute :: string where
  "o_acute = [CHR 0xC3, CHR 0xB3]"

definition ansv_unsupported_format :: js_error where
  "ansv_unsupported_format = Thrown ErrorK
     (''El portal ANSV/SINAI solo admite patentes en formato antiguo (ABC123). ''
      @ ''El formato Mercosur (AB123CD) no est'' @ a_acute @ '' soportado.'')"

definition ansv_no_sitekey :: js_error where
  "ansv_no_sitekey = Thrown ErrorK
     (''No se encontr'' @ o_acute @ '' el site key de reCAPTCHA en el portal ANSV/SINAI.'')"

definition ansv_page_url :: string where
  "ansv_page_url = ''https://consultainfracciones.seguridadvial.gob.ar/''"

text \<open>\<^verbatim>\<open>$('input[name="..."]').val() || ''\<close>.\<close>

definition hidden_or_empty :: "page \<Rightarrow> string \<Rightarrow> string" where
  "hidden_or_empty pg name = (case hidden pg name of None \<Rightarrow> [] | Some v \<Rightarrow> v)"

definition ansv_form :: "page \<Rightarrow> string \<Rightarrow> string \<Rightarrow> (string \<times> string) list" where
  "ansv_form home dominio captchaToken =
     [(''ctl00$ScriptManager'',
         ''ctl00$ContentPlaceHolder1$updtFormulario|ctl00$ContentPlaceHolder1$btnBuscar''),
      (''__EVENTTARGET'', []),
      (''__EVENTARGUMENT'', []),
      (''__ASYNCPOST'', ''true''),
      (''__VIEWSTATE'', hidden_or_empty home ''__VIEWSTATE''),
      (''__VIEWSTATEGENERATOR'', hidden_or_empty home ''__VIEWSTATEGENERATOR''),
      (''__EVENTVALIDATION'', hidden_or_empty home ''__EVENTVALIDATION''),
      (''ctl00$ContentPlaceHolder1$hiddenSeleccion'', ''dominio''),
      (''ctl00$ContentPlaceHolder1$hiddenBusqueda'', ''dominio''),
      (''ctl00$ContentPlaceHolder1$hiddenFirstLoad'', ''false''),
      (''ctl00$ContentPlaceHolder1$version'', ''2.3''),
      (''ctl00$ContentPlaceHolder1$txDominio'', dominio),
      (''ctl00$ContentPlaceHolder1$btnBuscar'', ''Consultar infracciones''),
      (''g-recaptcha-response'', captchaToken)]"

text \<open>The rows of the primary shape: rows of fewer than three cells are skipped.\<close>

definition ansv_table :: "page \<Rightarrow> infraccion list" where
  "ansv_table res = map ansv_row (filter (\<lambda>cols. \<not> length cols < 3) (rows res))"

text \<open>
  \<^verbatim>\<open>list.forEach(i => infracciones.push(...))\<close> inside \<^verbatim>\<open>try { } catch(_) {}\<close>: the
  records pushed before an item throws stay in the list.
\<close>

fun pushed_until_throw :: "(js_error + 'a) list \<Rightarrow> 'a list" where
  "pushed_until_throw [] = []"
| "pushed_until_throw (Inr x # ms) = x # pushed_until_throw ms"
| "pushed_until_throw (Inl e # ms) = []"

text \<open>
  The body of the \<^verbatim>\<open>try\<close> of the JSON fallback. \<^verbatim>\<open>JSON.parse\<close> throwing, a
  \<^verbatim>\<open>null\<close> body and a list that has no \<^verbatim>\<open>forEach\<close> all end in the empty
  \<^verbatim>\<open>catch\<close>.
\<close>

definition ansv_json_fallback :: "page \<Rightarrow> infraccion list" where
  "ansv_json_fallback res =
     (case parsed_json res of
        None \<Rightarrow> []
      | Some json \<Rightarrow>
          if \<not> readable json then []
          else
            (case or_chain
                    [get_prop json ''infracciones'', get_prop json ''data'',
                     get_prop json ''items''] (JArr []) of
               JArr list \<Rightarrow> pushed_until_throw (map ansv_item list)
             | _ \<Rightarrow> []))"

definition ansv_parse :: "page \<Rightarrow> infraccion list" where
  "ansv_parse res =
     (let infracciones = ansv_table res
      in if infracciones = [] \<and> js_includes (html res) ''{''
         then ansv_json_fallback res else infracciones)"

definition fetchANSV :: "net \<Rightarrow> string \<Rightarrow> outcome" where
  "fetchANSV n dominio =
     (if \<not> old_format dominio then (Inl ansv_unsupported_format, [])
      else
        case http_get n ansv_page_url of
          Inl e \<Rightarrow> (Inl e, [Get ansv_page_url])
        | Inr home \<Rightarrow>
            (case sitekey home of
               None \<Rightarrow> (Inl ansv_no_sitekey, [Get ansv_page_url])
             | Some siteKey \<Rightarrow>
                 (case recaptcha n siteKey ansv_page_url of
                    Inl e \<Rightarrow> (Inl e, [Get ansv_page_url, Recaptcha siteKey ansv_page_url])
                  | Inr captchaToken \<Rightarrow>
                      (let formData = ansv_form home dominio captchaToken;
                           sent = [Get ansv_page_url, Recaptcha siteKey ansv_page_url,
                                   Post ansv_page_url formData]
                       in case http_post n ansv_page_url formData of
                            Inl e \<Rightarrow> (Inl e, sent)
                          | Inr res \<Rightarrow> (Inr (ansv_parse res), sent)))))"

subsection \<open>fetchANSV (server.js)\<close>

definition server_ansv_recaptcha :: js_error where
  "server_ansv_recaptcha = Thrown ErrorK
     (''El portal ANSV/SINAI requiere reCAPTCHA; no se puede consultar autom'' @ a_acute
      @ ''ticamente desde este backend. Prob'' @ a_acute
      @ '' con fuente=pba/caba/santafe.'')"

text \<open>
  After the table rows, \<^verbatim>\<open>server.js\<close> evaluates
  \<^verbatim>\<open>infracciones.length === 0 && res.data.includes('{')\<close>. No \<^verbatim>\<open>res\<close> is in scope
  in this function (the response is \<^verbatim>\<open>home\<close>), so with no record from the table the
  second operand throws a \<^verbatim>\<open>ReferenceError\<close>, outside the \<^verbatim>\<open>try\<close>.
\<close>

definition res_not_defined :: js_error where
  "res_not_defined = Thrown ReferenceErrorK ''res is not defined''"

definition server_ansv_parse :: "page \<Rightarrow> js_error + infraccion list" where
  "server_ansv_parse home =
     (let infracciones = ansv_table home
      in if infracciones = [] then Inl res_not_defined else Inr infracciones)"

definition server_fetchANSV :: "net \<Rightarrow> string \<Rightarrow> outcome" where
  "server_fetchANSV n dominio =
     (case http_get n ansv_page_url of
        Inl e \<Rightarrow> (Inl e, [Get ansv_page_url])
      | Inr home \<Rightarrow>
          if js_includes (html home) ''g-recaptcha''
             \<or> js_includes (toLowerCase (html home)) ''recaptcha''
          then (Inl server_ansv_recaptcha, [Get ansv_page_url])
          else (server_ansv_parse home, [Get ansv_page_url]))"

subsection \<open>fetchPosadas\<close>

definition posadas_url :: string where
  "posadas_url = ''https://sistema.posadas.gov.ar/mp_sistemas/autogestion/verificarmultadominio''"

text \<open>
  The sentinel \<^verbatim>\<open>/no registra/i\<close> is tested on the body's text before any row is
  read. Of the matched rows the first is skipped, and so is a row of fewer than two
  cells.
\<close>

definition posadas_parse :: "page \<Rightarrow> infraccion list" where
  "posadas_parse res =
     (let bodyText = body_text res
      in if test_ci ''no registra'' bodyText then []
         else map (posadas_row bodyText)
                (filter (\<lambda>cols. \<not> length cols < 2) (drop 1 (rows res))))"

definition fetchPosadas :: "net \<Rightarrow> string \<Rightarrow> outcome" where
  "fetchPosadas n dominio =
     (let formData = [(''tf_dominio'', dominio)]
      in case http_post n posadas_url formData of
           Inl e \<Rightarrow> (Inl e, [Post posadas_url formData])
         | Inr res \<Rightarrow> (Inr (posadas_parse res), [Post posadas_url formData]))"

subsection \<open>fetchCorrientes\<close>

definition corrientes_url :: string where
  "corrientes_url = ''https://corrientes.sigein.net/''"

definition corrientes_form :: "page \<Rightarrow> string \<Rightarrow> (string \<times> string) list" where
  "corrientes_form home dominio =
     [(''__EVENTTARGET'', []),
      (''__EVENTARGUMENT'', []),
      (''__VIEWSTATE'', hidden_or_empty home ''__VIEWSTATE''),
      (''__VIEWSTATEGENERATOR'', hidden_or_empty home ''__VIEWSTATEGENERATOR''),
      (''__EVENTVALIDATION'', hidden_or_empty home ''__EVENTVALIDATION''),
      (''tbPatente'', dominio),
      (''btnConsultaDominio'', ''REALIZAR CONSULTA'')]"

text \<open>\<^verbatim>\<open>/no posee infracciones|sin infracciones|no registra/i.test(bodyText)\<close>.\<close>

definition corrientes_sentinel :: "string \<Rightarrow> bool" where
  "corrientes_sentinel bodyText =
     (test_ci ''no posee infracciones'' bodyText \<or> test_ci ''sin infracciones'' bodyText
      \<or> test_ci ''no registra'' bodyText)"

text \<open>As in \<^verbatim>\<open>fetchPosadas\<close>, the sentinel is tested before any row is read.\<close>

definition corrientes_parse :: "page \<Rightarrow> infraccion list" where
  "corrientes_parse res =
     (if corrientes_sentinel (body_text res) then []
      else map corrientes_row (filter (\<lambda>cols. \<not> length cols < 2) (drop 1 (rows res))))"

definition fetchCorrientes :: "net \<Rightarrow> string \<Rightarrow> outcome" where
  "fetchCorrientes n dominio =
     (case http_get n corrientes_url of
        Inl e \<Rightarrow> (Inl e, [Get corrientes_url])
      | Inr home \<Rightarrow>
          (let formData = corrientes_form home dominio;
               sent = [Get corrientes_url, Post corrientes_url formData]
           in case http_post n corrientes_url formData of
                Inl e \<Rightarrow> (Inl e, sent)
              | Inr res \<Rightarrow> (Inr (corrientes_parse res), sent)))"

subsection \<open>fetchRosario\<close>

definition rosario_form_url :: string where
  "rosario_form_url = ''https://www.rosario.gob.ar/gdm/patente.do''"

definition rosario_site_key :: string where
  "rosario_site_key = ''6LcUUMUUAAAAAHd5V8Y7RYJ4L91xP9uhD8uAspSL''"

definition rosario_no_session :: js_error where
  "rosario_no_session = Thrown ErrorK
     (''No se pudo obtener la sesi'' @ o_acute @ ''n del portal de Rosario.'')"

definition rosario_error :: "string \<Rightarrow> js_error" where
  "rosario_error errText = Thrown ErrorK (''Rosario devolvi'' @ o_acute @ '' error: '' @ errText)"

text \<open>\<^verbatim>\<open>/no registra|sin infracciones|no pose/i.test(bodyText)\<close>.\<close>

definition rosario_sentinel :: "string \<Rightarrow> bool" where
  "rosario_sentinel bodyText =
     (test_ci ''no registra'' bodyText \<or> test_ci ''sin infracciones'' bodyText
      \<or> test_ci ''no pose'' bodyText)"

text \<open>
  The rows are read first; the sentinel is tested afterwards, and only together with
  \<^verbatim>\<open>infracciones.length === 0\<close>.
\<close>

definition rosario_parse :: "page \<Rightarrow> js_error + infraccion list" where
  "rosario_parse res =
     (case error_summary res of
        Some errText \<Rightarrow> Inl (rosario_error errText)
      | None \<Rightarrow>
          (let infracciones =
                 map rosario_row (filter (\<lambda>cols. \<not> length cols < 2) (drop 1 (rows res)))
           in if rosario_sentinel (body_text res) \<and> infracciones = [] then Inr []
              else Inr infracciones))"

definition fetchRosario :: "net \<Rightarrow> string \<Rightarrow> outcome" where
  "fetchRosario n dominio =
     (let start = rosario_form_url @ ''?accion=ir''
      in case http_get n start of
           Inl e \<Rightarrow> (Inl e, [Get start])
         | Inr home \<Rightarrow>
             (case jsessionid home of
                None \<Rightarrow> (Inl rosario_no_session, [Get start])
              | Some sid \<Rightarrow>
                  (case recaptcha n rosario_site_key start of
                     Inl e \<Rightarrow> (Inl e, [Get start, Recaptcha rosario_site_key start])
                   | Inr captchaToken \<Rightarrow>
                       (let formData = [(''accion'', ''consultar''), (''patente'', dominio),
                                        (''g-recaptcha-response'', captchaToken)];
                            target = rosario_form_url @ '';jsessionid='' @ sid;
                            sent = [Get start, Recaptcha rosario_site_key start,
                                    Post target formData]
                        in case http_post n target formData of
                             Inl e \<Rightarrow> (Inl e, sent)
                           | Inr res \<Rightarrow> (rosario_parse res, sent)))))"

section \<open>The route /multas\<close>

datatype adapter =
    FetchANSV | FetchPBA | FetchCABA | FetchSantaFe | FetchPosadas | FetchCorrientes
  | FetchEntreRios | FetchMisiones | FetchChaco | FetchRosario | FetchNeuquen
  | FetchSantaRosa | FetchMendoza | FetchCordoba | FetchMendozaCaminera | FetchSalta

text \<open>The \<^verbatim>\<open>switch (fuente)\<close> of \<^verbatim>\<open>backend-server.js\<close>.\<close>

definition select_adapter :: "string \<Rightarrow> adapter" where
  "select_adapter fuente =
     (if fuente = ''pba'' then FetchPBA
      else if fuente = ''caba'' then FetchCABA
      else if fuente = ''santafe'' then FetchSantaFe
      else if fuente = ''posadas'' then FetchPosadas
      else if fuente = ''corrientes'' then FetchCorrientes
      else if fuente = ''entrerios'' then FetchEntreRios
      else if fuente = ''misiones'' then FetchMisiones
      else if fuente = ''chaco'' then FetchChaco
      else if fuente = ''rosario'' then FetchRosario
      else if fuente = ''neuquen'' then FetchNeuquen
      else if fuente = ''santarosa'' then FetchSantaRosa
      else if fuente = ''mendoza'' then FetchMendoza
      else if fuente = ''cordoba'' then FetchCordoba
      else if fuente = ''mendozacaminera'' then FetchMendozaCaminera
      else if fuente = ''salta'' then FetchSalta
      else FetchANSV)"

definition known_sources :: "string list" where
  "known_sources =
     [''pba'', ''caba'', ''santafe'', ''posadas'', ''corrientes'', ''entrerios'', ''misiones'',
      ''chaco'', ''rosario'', ''neuquen'', ''santarosa'', ''mendoza'', ''cordoba'',
      ''mendozacaminera'', ''salta'', ''ansv'']"

text \<open>The \<^verbatim>\<open>switch (fuente)\<close> of \<^verbatim>\<open>server.js\<close>.\<close>

definition server_select_adapter :: "string \<Rightarrow> adapter" where
  "server_select_adapter fuente =
     (if fuente = ''pba'' then FetchPBA
      else if fuente = ''caba'' then FetchCABA
      else if fuente = ''santafe'' then FetchSantaFe
      else FetchANSV)"

definition server_known_sources :: "string list" where
  "server_known_sources = [''pba'', ''caba'', ''santafe'', ''ansv'']"


text \<open>
  \<^verbatim>\<open>dominio.replace(/\s/g, '').toUpperCase()\<close>. The built-in \<^verbatim>\<open>toUpperCase\<close> is the
  parameter \<open>upper\<close>.
\<close>

definition clean_dominio :: "(string \<Rightarrow> string) \<Rightarrow> string \<Rightarrow> string" where
  "clean_dominio upper dominio = upper (remove_space dominio)"

text \<open>
  A query parameter is a string when present; \<^verbatim>\<open>fuente\<close> defaults to \<^verbatim>\<open>'ansv'\<close>.
\<close>

definition fuente_or_default :: "string option \<Rightarrow> string" where
  "fuente_or_default fuente = (case fuente of None \<Rightarrow> ''ansv'' | Some f \<Rightarrow> f)"

text \<open>
  The cleaned identifier of a request that passes the two checks before the
  \<^verbatim>\<open>try\<close>, \<open>None\<close> for a request answered with status 400.
\<close>

definition accepted :: "(string \<Rightarrow> string) \<Rightarrow> string option \<Rightarrow> string option" where
  "accepted upper dominio =
     (case dominio of
        None \<Rightarrow> None
      | Some d \<Rightarrow>
          if d = [] then None
          else if \<not> old_format (clean_dominio upper d)
                  \<and> \<not> mercosur_format (clean_dominio upper d)
          then None
          else Some (clean_dominio upper d))"

text \<open>
  The adapter the handler calls and its argument, \<open>None\<close> when the request is rejected
  before the \<^verbatim>\<open>switch\<close>.
\<close>

definition invocation ::
    "(string \<Rightarrow> string) \<Rightarrow> (string \<Rightarrow> adapter) \<Rightarrow> string option \<Rightarrow> string option
     \<Rightarrow> (adapter \<times> string) option" where
  "invocation upper select dominio fuente =
     (case accepted upper dominio of
        None \<Rightarrow> None
      | Some clean \<Rightarrow> Some (select (fuente_or_default fuente), clean))"



section \<open>The symmetric codec of fetchMendozaCaminera\<close>

type_synonym byte = "8 word"

text \<open>\<^verbatim>\<open>Buffer.from(hexKey, 'hex')\<close>: pairs of hex digits, up to the first pair that is not.\<close>

definition hex_value :: "char \<Rightarrow> nat option" where
  "hex_value c =
     map_of (zip ''0123456789abcdefABCDEF''
               [0, 1, 2, 3, 4, 5, 6, 7, 8, 9, 10, 11, 12, 13, 14, 15, 10, 11, 12, 13, 14, 15]) c"

fun hex_decode :: "string \<Rightarrow> byte list" where
  "hex_decode (a # b # rest) =
     (case (hex_value a, hex_value b) of
        (Some x, Some y) \<Rightarrow> of_nat (16 * x + y) # hex_decode rest
      | _ \<Rightarrow> [])"
| "hex_decode cs = []"

text \<open>\<^verbatim>\<open>buffer.toString('hex')\<close>: two lower-case hex digits a byte.\<close>

definition hex_char :: "nat \<Rightarrow> char" where
  "hex_char n = ''0123456789abcdef'' ! n"

definition hex_encode :: "byte list \<Rightarrow> string" where
  "hex_encode bs = concat (map (\<lambda>b. [hex_char (unat b div 16), hex_char (unat b mod 16)]) bs)"

text \<open>\<^verbatim>\<open>Buffer.from(plaintext, 'ascii')\<close>: one byte a character.\<close>

definition ascii_bytes :: "string \<Rightarrow> byte list" where
  "ascii_bytes plaintext = map (\<lambda>c. of_char c) plaintext"

text \<open>\<^verbatim>\<open>Math.ceil(bytes.length / 16) * 16\<close>.\<close>

definition padded_length :: "nat \<Rightarrow> nat" where
  "padded_length n = nat \<lceil>rat_of_nat n / 16\<rceil> * 16"

text \<open>\<^verbatim>\<open>Buffer.alloc(..., 0)\<close>, then \<^verbatim>\<open>bytes.copy(padded)\<close>.\<close>

definition zero_pad :: "byte list \<Rightarrow> byte list" where
  "zero_pad bytes = bytes @ replicate (padded_length (length bytes) - length bytes) 0"

text \<open>
  ECB: the input is cut into blocks of 16 bytes and each block is encrypted on its
  own, with no state carried from one block to the next.
\<close>

function blocks16 :: "byte list \<Rightarrow> byte list list" where
  "blocks16 bs = (if bs = [] then [] else take 16 bs # blocks16 (drop 16 bs))"
  by pat_completeness auto
termination
  by (relation "measure length") auto

declare blocks16.simps [simp del]

text \<open>
  \<^verbatim>\<open>gxEncrypt(plaintext, hexKey)\<close>. The block function of AES-128 is the parameter
  \<open>aes\<close> (key, block); \<^verbatim>\<open>createCipheriv\<close> throws on a key that is not 16 bytes. With
  \<^verbatim>\<open>setAutoPadding(false)\<close> and an input of whole blocks, \<^verbatim>\<open>final()\<close> adds nothing.
\<close>

definition invalid_key_length :: js_error where
  "invalid_key_length = Thrown RangeErrorK ''Invalid key length''"

definition gxEncrypt ::
    "(byte list \<Rightarrow> byte list \<Rightarrow> byte list) \<Rightarrow> string \<Rightarrow> string \<Rightarrow> js_error + string" where
  "gxEncrypt aes plaintext hexKey =
     (let key = hex_decode hexKey;
          bytes = ascii_bytes plaintext;
          padded = zero_pad bytes
      in if length key \<noteq> 16 then Inl invalid_key_length
         else Inr (hex_encode (concat (map (aes key) (blocks16 padded)))))"

text \<open>The ciphertext bytes, before the hex encoding.\<close>

definition gx_cipher_bytes ::
    "(byte list \<Rightarrow> byte list \<Rightarrow> byte list) \<Rightarrow> string \<Rightarrow> string \<Rightarrow> byte list" where
  "gx_cipher_bytes aes plaintext hexKey =
     concat (map (aes (hex_decode hexKey)) (blocks16 (zero_pad (ascii_bytes plaintext))))"

section \<open>Example inputs\<close>

text \<open>A network on which every request fails, and one that answers with a given page.\<close>

definition refused :: js_error where
  "refused = Thrown ErrorK ''connect ECONNREFUSED''"

definition net_down :: net where
  "net_down = \<lparr> http_get = (\<lambda>url. Inl refused),
                 http_post = (\<lambda>url form. Inl refused),
                 recaptcha = (\<lambda>key url. Inl refused) \<rparr>"

definition blank_page :: page where
  "blank_page = \<lparr> html = [], hidden = (\<lambda>name. None), sitekey = None, rows = [],
                   body_text = [], parsed_json = None, error_summary = None,
                   jsessionid = None \<rparr>"

definition net_serving :: "page \<Rightarrow> net" where
  "net_serving pg = \<lparr> http_get = (\<lambda>url. Inr pg),
                       http_post = (\<lambda>url form. Inr pg),
                       recaptcha = (\<lambda>key url. Inr ''token'') \<rparr>"


text \<open>
  \<^verbatim>\<open>toUpperCase\<close> on a text of ASCII characters, for the examples of the handler.
\<close>

definition ascii_upper :: "string \<Rightarrow> string" where
  "ascii_upper s =
     map (\<lambda>c. case map_of (zip ''abcdefghijklmnopqrstuvwxyz'' ''ABCDEFGHIJKLMNOPQRSTUVWXYZ'') c of
                 None \<Rightarrow> c | Some u \<Rightarrow> u) s"

text \<open>
  The JSON text \<^verbatim>\<open>{"infracciones":[{"estado":"Anulada"}]}\<close>, and an HTTP body that
  encodes this text once more, as a JSON string:
  \<^verbatim>\<open>"{\"infracciones\":[{\"estado\":\"Anulada\"}]}"\<close>.
\<close>

definition anulada_text :: string where
  "anulada_text =
     [CHR ''{'', CHR 0x22] @ ''infracciones'' @ [CHR 0x22] @ '':[{'' @ [CHR 0x22] @ ''estado''
     @ [CHR 0x22, CHR '':'', CHR 0x22] @ ''Anulada'' @ [CHR 0x22] @ ''}]}''"

definition anulada_doubly_encoded :: string where
  "anulada_doubly_encoded =
     [CHR 0x22, CHR ''{'', CHR 0x5C, CHR 0x22] @ ''infracciones'' @ [CHR 0x5C, CHR 0x22]
     @ '':[{'' @ [CHR 0x5C, CHR 0x22] @ ''estado''
     @ [CHR 0x5C, CHR 0x22, CHR '':'', CHR 0x5C, CHR 0x22] @ ''Anulada''
     @ [CHR 0x5C, CHR 0x22] @ ''}]}'' @ [CHR 0x22]"

text \<open>
  \<^verbatim>\<open>JSON.parse\<close> on the two texts of the example: the HTTP body parses to the string
  it encodes, and that string parses to the object. On \<^verbatim>\<open>[object Object]\<close> and on
  every other text the examples use, \<^verbatim>\<open>JSON.parse\<close> throws.
\<close>

definition json_parse_example :: "string \<Rightarrow> jsval option" where
  "json_parse_example s =
     (if s = anulada_doubly_encoded then Some (JStr anulada_text)
      else if s = anulada_text
      then Some (JObj [(''infracciones'', JArr [JObj [(''estado'', JStr ''Anulada'')]])])
      else None)"

text \<open>cheerio on a text with no markup in it: no table row.\<close>

definition no_table :: "string \<Rightarrow> string list list" where
  "no_table resText = []"

text \<open>The body \<^verbatim>\<open>{}\<close>: valid JSON, no table, no mention of a captcha.\<close>

definition empty_object_body :: page where
  "empty_object_body = blank_page \<lparr> html := ''{}'', parsed_json := Some (JObj []) \<rparr>"

text \<open>
  A session of \<^verbatim>\<open>fetchRosario\<close>. The form page sets \<^verbatim>\<open>JSESSIONID=S1\<close>; the
  answer to the POST is the markup \<open>sentinel_markup\<close>, which says
  \<^verbatim>\<open>no registra\<close> and has a table of a header row and one data row. The text of its
  body is the text of the paragraph followed by the texts of the cells.
\<close>

definition session_page :: page where
  "session_page = blank_page \<lparr> jsessionid := Some ''S1'' \<rparr>"

definition sentinel_markup :: string where
  "sentinel_markup =
     ''<p>No registra infracciones</p>''
     @ ''<table><tr><td>Acta</td><td>Fecha</td></tr>''
     @ ''<tr><td>A-1</td><td>2024-01-01</td></tr></table>''"

definition sentinel_and_rows :: page where
  "sentinel_and_rows = blank_page
     \<lparr> html := sentinel_markup,
       body_text := ''No registra infraccionesActaFechaA-12024-01-01'',
       rows := [[''Acta'', ''Fecha''], [''A-1'', ''2024-01-01'']] \<rparr>"

definition net_session :: "page \<Rightarrow> page \<Rightarrow> net" where
  "net_session home res = \<lparr> http_get = (\<lambda>url. Inr home),
                             http_post = (\<lambda>url form. Inr res),
                             recaptcha = (\<lambda>key url. Inr ''token'') \<rparr>"

text \<open>
  A response whose table has a header row of \<^verbatim>\<open>th\<close> cells (no \<^verbatim>\<open>td\<close> in it) and
  one data row with the amount \<^verbatim>\<open>$1.234,56\<close>, the spec's own example.
\<close>

definition amount_row :: "string list" where
  "amount_row =
     [''A-1'', ''01/02/2024'', ''Exceso de velocidad'', ''Ruta 9'', ''$1.234,56'', ''Pendiente'']"

definition amount_markup :: string where
  "amount_markup =
     ''<table><tbody><tr><th>Acta</th><th>Fecha</th><th>Descripcion</th><th>Lugar</th>''
     @ ''<th>Importe</th><th>Estado</th></tr>''
     @ ''<tr><td>A-1</td><td>01/02/2024</td><td>Exceso de velocidad</td><td>Ruta 9</td>''
     @ ''<td>$1.234,56</td><td>Pendiente</td></tr></tbody></table>''"

definition amount_page :: page where
  "amount_page = blank_page
     \<lparr> html := amount_markup,
       body_text := ''ActaFechaDescripcionLugarImporteEstado''
                    @ ''A-101/02/2024Exceso de velocidadRuta 9$1.234,56Pendiente'',
       rows := [[], amount_row] \<rparr>"

text \<open>A toy block function for the examples of the codec: it reverses the block.\<close>

definition toy_block :: "byte list \<Rightarrow> byte list \<Rightarrow> byte list" where
  "toy_block key block = rev block"

definition toy_key :: string where
  "toy_key = ''000102030405060708090a0b0c0d0e0f''"

section \<open>Verified properties\<close>

subsection \<open>Shared facts\<close>

lemmas parse_defs = parseFloat_def num_or_null_def js_or_def digit_val_def
  strip_non_digit_dot_def strip_non_digit_dot_comma_def is_digit_def
  skip_space.simps space_width_def space_chars_def
  digits_val_def to_number_def scale10_def exponent_part_def negate_def

lemmas lower_defs = toLowerCase_def lower_char_def test_ci_def

lemma bind_err_Inr: "(bind_err m f = Inr y) = (\<exists>x. m = Inr x \<and> f x = Inr y)"
  by (cases m) (simp_all add: bind_err_def)

lemma pba_item_fields:
  "pba_item i = Inr r \<Longrightarrow>
     \<exists>imp est. importe_item PBA_json i = Inr imp \<and> estado_json [''estado''] i = Inr est
       \<and> importe r = imp \<and> estado r = est"
  by (cases "readable i") (auto simp add: pba_item_def bind_err_Inr simp del: or_chain.simps)

lemma ansv_item_fields:
  "ansv_item i = Inr r \<Longrightarrow>
     \<exists>imp est. importe_item ANSV_json i = Inr imp
       \<and> toLowerCase_val (or_chain [get_prop i ''estado''] (JStr ''pendiente'')) = Inr est
       \<and> importe r = imp \<and> estado r = JStr est"
  by (cases "readable i") (auto simp add: ansv_item_def bind_err_Inr simp del: or_chain.simps)

lemma salta_item_fields:
  "salta_item B i = Inr r \<Longrightarrow>
     \<exists>imp est. importe_item Salta_json i = Inr imp
       \<and> estado_json [''estadoPlanPago'', ''estado''] i = Inr est
       \<and> importe r = imp \<and> estado r = est"
  by (cases "readable i") (auto simp add: salta_item_def bind_err_Inr simp del: or_chain.simps)

subsection \<open>Monetary normalization\<close>

lemma replace_first_comma_id: "CHR '','' \<notin> set u \<Longrightarrow> replace_first_comma u = u"
  by (induction u) auto

lemma strip_no_comma:
  "CHR '','' \<notin> set t \<Longrightarrow> strip_non_digit_dot_comma t = strip_non_digit_dot t"
  unfolding strip_non_digit_dot_comma_def strip_non_digit_dot_def
  by (rule filter_cong) auto

lemma importe_variants_agree:
  assumes "CHR '','' \<notin> set t"
  shows "importe_comma t = importe_dot t"
proof -
  have "CHR '','' \<notin> set (strip_non_digit_dot t)"
    using assms by (simp add: strip_non_digit_dot_def)
  then show ?thesis
    using assms
    by (simp add: importe_comma_def importe_dot_def strip_no_comma replace_first_comma_id)
qed

lemma space_width_separator:
  "space_width (CHR ''.'' # cs) = 0" "space_width (CHR '','' # cs) = 0"
  by (simp_all add: space_width_def space_chars_def)

lemma skip_space_separator:
  "c = CHR ''.'' \<or> c = CHR '','' \<Longrightarrow> skip_space (c # cs) = c # cs"
  using space_width_separator [of cs] by (subst skip_space.simps) auto

lemma parseFloat_separators:
  assumes "\<forall>c \<in> set u. c = CHR ''.'' \<or> c = CHR '',''"
  shows "parseFloat u = NaN"
proof (cases u)
  case Nil
  have "skip_space [] = []"
    by (subst skip_space.simps) (simp add: space_width_def space_chars_def)
  with Nil show ?thesis by (simp add: parseFloat_def)
next
  case (Cons c cs)
  have tw: "takeWhile is_digit cs = []"
    using assms Cons by (cases cs) (auto simp: is_digit_def)
  from assms Cons have c: "c = CHR ''.'' \<or> c = CHR '',''" by simp
  then have nd: "\<not> is_digit c"
    by (auto simp: is_digit_def)
  from c have ns: "skip_space (c # cs) = c # cs" by (rule skip_space_separator)
  from c have sg: "take_sign (c # cs) = (False, c # cs)" by auto
  from c have inf: "\<not> starts_with (c # cs) ''Infinity''" by auto
  from c tw have fp: "fst (fraction_part (c # cs)) = []" by auto
  show ?thesis
    unfolding Cons parseFloat_def using nd ns sg inf fp
    by (simp add: split_beta)
qed

lemma replace_first_comma_set:
  "set (replace_first_comma u) \<subseteq> set u \<union> {CHR ''.''}"
  by (induction u) auto

lemma importe_no_digit:
  assumes "\<forall>c \<in> set t. \<not> is_digit c"
  shows "importe_dot t = JNull" and "importe_comma t = JNull"
proof -
  have "\<forall>c \<in> set (strip_non_digit_dot t). c = CHR ''.'' \<or> c = CHR '',''"
    using assms by (auto simp: strip_non_digit_dot_def)
  then show "importe_dot t = JNull"
    by (simp add: importe_dot_def parseFloat_separators num_or_null_def js_or_def)
  have "\<forall>c \<in> set (strip_non_digit_dot_comma t). c = CHR ''.'' \<or> c = CHR '',''"
    using assms by (auto simp: strip_non_digit_dot_comma_def)
  then have "\<forall>c \<in> set (replace_first_comma (strip_non_digit_dot_comma t)).
      c = CHR ''.'' \<or> c = CHR '',''"
    using replace_first_comma_set by fastforce
  then show "importe_comma t = JNull"
    by (simp add: importe_comma_def parseFloat_separators num_or_null_def js_or_def)
qed

lemma importe_plain_decimal:
  "importe_dot ''1234.56'' = JNum (Fin (123456 / 100))"
  "importe_comma ''1234.56'' = JNum (Fin (123456 / 100))"
  by (simp_all add: importe_dot_def importe_comma_def parse_defs)

text \<open>
  C1 (the code departs from the claim). The claim, with the spec, has the amount
  \<^verbatim>\<open>$1.234,56\<close> parse to 1234.56 whichever adapter reads it. In a table row read by
  \<^verbatim>\<open>fetchANSV\<close> the comma is stripped with the currency sign and the importe is
  1.23456; in a table row read by \<^verbatim>\<open>fetchRosario\<close> the comma becomes a second dot,
  the thousands dot stays, and the importe is 1.234; in a JSON item read by
  \<^verbatim>\<open>fetchPBA\<close> nothing is stripped and the importe is \<^verbatim>\<open>null\<close>.
\<close>

theorem C1_amount_with_thousands_dot_misparsed:
  "map importe (ansv_parse amount_page) = [JNum (Fin (123456 / 100000))]
   \<and> map_sum id (map importe) (rosario_parse amount_page) = Inr [JNum (Fin (1234 / 1000))]
   \<and> map_sum id importe (pba_item (JObj [(''importe'', JStr ''$1.234,56'')])) = Inr JNull"
proof -
  have a: "importe_dot ''$1.234,56'' = JNum (Fin (123456 / 100000))"
    by (simp add: importe_dot_def parse_defs)
  have r: "importe_comma ''$1.234,56'' = JNum (Fin (1234 / 1000))"
    by (simp add: importe_comma_def parse_defs)
  have 1: "map importe (ansv_parse amount_page) = [JNum (Fin (123456 / 100000))]"
    by (simp add: ansv_parse_def ansv_table_def amount_page_def blank_page_def amount_row_def
        ansv_row_def col_or_empty_def a)
  have s: "\<not> rosario_sentinel (body_text amount_page)"
    by (simp add: rosario_sentinel_def amount_page_def blank_page_def lower_defs)
  have 2: "map_sum id (map importe) (rosario_parse amount_page) = Inr [JNum (Fin (1234 / 1000))]"
    using s
    by (simp add: rosario_parse_def amount_page_def blank_page_def amount_row_def
        rosario_row_def col_or_empty_def r)
  have 3: "map_sum id importe (pba_item (JObj [(''importe'', JStr ''$1.234,56'')])) = Inr JNull"
    by (simp add: pba_item_def importe_item_def importe_json_def parseFloat_val_def
        estado_json_def toLowerCase_val_def bind_err_def lower_defs parse_defs)
  from 1 2 3 show ?thesis by simp
qed

subsection \<open>Status normalization\<close>

lemma estado_of_text_enum:
  "estado_of_text s = JStr ''pagada'' \<or> estado_of_text s = JStr ''pendiente''"
  by (simp add: estado_of_text_def)

lemma estado_json_enum:
  "estado_json names i = Inr v \<Longrightarrow> v = JStr ''pagada'' \<or> v = JStr ''pendiente''"
  by (auto simp: estado_json_def bind_err_Inr split: if_splits)

lemma pba_item_estado:
  "pba_item i = Inr r \<Longrightarrow> estado r = JStr ''pagada'' \<or> estado r = JStr ''pendiente''"
  using pba_item_fields estado_json_enum by blast

lemma ansv_row_estado:
  "estado (ansv_row cols) = JStr ''pagada'' \<or> estado (ansv_row cols) = JStr ''pendiente''"
  using estado_of_text_enum by (simp add: ansv_row_def)

lemma ansv_parse_without_brace:
  "ansv_table res = [] \<Longrightarrow> \<not> js_includes (html res) ''{'' \<Longrightarrow> ansv_parse res = []"
  by (simp add: ansv_parse_def)

lemma ansv_response_parsed_object:
  "map_sum id (\<lambda>res. (html res, ansv_parse res))
     (ansv_response json_parse_example B no_table anulada_text)
   = Inr (''[object Object]'', [])"
  by (simp add: ansv_response_def axios_data_def json_parse_example_def anulada_text_def
      anulada_doubly_encoded_def ToString_def bind_err_def no_table_def ansv_parse_def
      ansv_table_def)

text \<open>
  C2 (the code departs from the claim). The JSON fallback of \<^verbatim>\<open>fetchANSV\<close> copies
  the lower-cased status text into \<^verbatim>\<open>estado\<close>; every other construction site
  maps it to \<^verbatim>\<open>pagada\<close> or \<^verbatim>\<open>pendiente\<close>. The fallback runs when
  \<^verbatim>\<open>res.data\<close> is itself a text with a brace in it, as for the body
  \<^verbatim>\<open>"{\"infracciones\":[{\"estado\":\"Anulada\"}]}"\<close>, a JSON string that holds the
  JSON text: the record's \<^verbatim>\<open>estado\<close> is then \<^verbatim>\<open>anulada\<close>, neither value of the
  enumeration.
\<close>

theorem C2_ansv_json_estado_not_normalized:
  "map_sum id (\<lambda>res. map estado (ansv_parse res))
     (ansv_response json_parse_example B no_table anulada_doubly_encoded)
   = Inr [JStr ''anulada'']"
  by (simp add: ansv_response_def axios_data_def json_parse_example_def anulada_text_def
      anulada_doubly_encoded_def ToString_def bind_err_def no_table_def ansv_parse_def
      ansv_table_def ansv_json_fallback_def ansv_item_def importe_item_def importe_json_def
      parseFloat_val_def toLowerCase_val_def lower_defs num_or_null_def js_or_def)

subsection \<open>Sentinel before rows\<close>

lemma posadas_sentinel_first:
  "test_ci ''no registra'' (body_text res) \<Longrightarrow> posadas_parse res = []"
  by (simp add: posadas_parse_def)

lemma corrientes_sentinel_first:
  "test_ci ''no registra'' (body_text res) \<Longrightarrow> corrientes_parse res = []"
  by (simp add: corrientes_parse_def corrientes_sentinel_def)

lemma fetchPosadas_sentinel_first:
  "http_post n posadas_url [(''tf_dominio'', dominio)] = Inr res \<Longrightarrow>
   test_ci ''no registra'' (body_text res) \<Longrightarrow> fst (fetchPosadas n dominio) = Inr []"
  by (simp add: fetchPosadas_def posadas_sentinel_first Let_def)

lemma fetchCorrientes_sentinel_first:
  "http_get n corrientes_url = Inr home \<Longrightarrow>
   http_post n corrientes_url (corrientes_form home dominio) = Inr res \<Longrightarrow>
   test_ci ''no registra'' (body_text res) \<Longrightarrow> fst (fetchCorrientes n dominio) = Inr []"
  by (simp add: fetchCorrientes_def corrientes_sentinel_first Let_def)

lemma rosario_parse_rows:
  "error_summary res = None \<Longrightarrow>
     rosario_parse res =
       Inr (map rosario_row (filter (\<lambda>cols. \<not> length cols < 2) (drop 1 (rows res))))"
  by (simp add: rosario_parse_def)

lemma sentinel_in_example: "test_ci ''no registra'' (body_text sentinel_and_rows)"
  by (simp add: sentinel_and_rows_def blank_page_def lower_defs)

text \<open>
  C3 (the code departs from the claim). \<^verbatim>\<open>fetchRosario\<close> reads the rows first and
  tests the sentinel only together with \<^verbatim>\<open>infracciones.length === 0\<close>: on a body
  whose text says \<^verbatim>\<open>no registra\<close> and whose table has a data row it returns that
  row. \<^verbatim>\<open>fetchPosadas\<close> and \<^verbatim>\<open>fetchCorrientes\<close>, which test the same phrase before
  they read any row, return zero records on the same page.
\<close>

theorem C3_rosario_returns_rows_despite_sentinel:
  "test_ci ''no registra'' (body_text sentinel_and_rows)
   \<and> fst (fetchRosario (net_session session_page sentinel_and_rows) ''ABC123'')
       = Inr [rosario_row [''A-1'', ''2024-01-01'']]
   \<and> fst (fetchPosadas (net_session session_page sentinel_and_rows) ''ABC123'') = Inr []
   \<and> fst (fetchCorrientes (net_session session_page sentinel_and_rows) ''ABC123'') = Inr []"
proof -
  note s = sentinel_in_example
  have r: "fst (fetchRosario (net_session session_page sentinel_and_rows) ''ABC123'')
       = Inr [rosario_row [''A-1'', ''2024-01-01'']]"
    by (simp add: fetchRosario_def net_session_def session_page_def rosario_parse_rows
        sentinel_and_rows_def blank_page_def Let_def)
  have p: "fst (fetchPosadas (net_session session_page sentinel_and_rows) ''ABC123'') = Inr []"
    using s by (simp add: fetchPosadas_sentinel_first net_session_def)
  have c: "fst (fetchCorrientes (net_session session_page sentinel_and_rows) ''ABC123'') = Inr []"
    using s by (simp add: fetchCorrientes_sentinel_first net_session_def)
  from s r p c show ?thesis by simp
qed

subsection \<open>Identifier format of fetchANSV\<close>

lemma mercosur_not_old: "mercosur_format d \<Longrightarrow> \<not> old_format d"
  by (simp add: mercosur_format_def old_format_def)

lemma fetchANSV_rejects: "\<not> old_format d \<Longrightarrow> fetchANSV n d = (Inl ansv_unsupported_format, [])"
  by (simp add: fetchANSV_def)

lemma fetchANSV_proceeds:
  "old_format d \<Longrightarrow> \<exists>rest. snd (fetchANSV n d) = Get ansv_page_url # rest"
  by (simp add: fetchANSV_def Let_def split: sum.splits option.splits)

lemma server_fetchANSV_requests: "snd (server_fetchANSV n d) = [Get ansv_page_url]"
  by (simp add: server_fetchANSV_def split: sum.splits)

text \<open>
  C4 (as stated, refuted). \<^verbatim>\<open>fetchANSV\<close> of \<^verbatim>\<open>server.js\<close> has no format check:
  on the Mercosur identifier \<^verbatim>\<open>AB123CD\<close> it sends its request, and what fails is
  the request.
\<close>

theorem C4_server_ansv_counterexample:
  "mercosur_format ''AB123CD''
   \<and> server_fetchANSV net_down ''AB123CD'' = (Inl refused, [Get ansv_page_url])
   \<and> length (snd (server_fetchANSV net_down ''AB123CD'')) = 1"
  by (simp add: mercosur_format_def is_upper_def is_digit_def server_fetchANSV_def net_down_def)

text \<open>
  C4 (amended). \<^verbatim>\<open>fetchANSV\<close> of \<^verbatim>\<open>backend-server.js\<close> fails with the
  unsupported-format error and no request sent on every identifier that is not in the
  6-character layout, the 7-character layout included, and sends its first request
  only on the 6-character layout. \<^verbatim>\<open>fetchANSV\<close> of \<^verbatim>\<open>server.js\<close> sends its
  one request on every identifier.
\<close>

theorem C4_ansv_format_amended:
  "(mercosur_format d \<longrightarrow> \<not> old_format d)
   \<and> (\<not> old_format d \<longrightarrow> fetchANSV n d = (Inl ansv_unsupported_format, []))
   \<and> (old_format d \<longrightarrow> (\<exists>rest. snd (fetchANSV n d) = Get ansv_page_url # rest))
   \<and> snd (server_fetchANSV n d) = [Get ansv_page_url]"
  using mercosur_not_old fetchANSV_rejects fetchANSV_proceeds server_fetchANSV_requests
  by blast

text \<open>C4, at the identifiers \<^verbatim>\<open>AB123CD\<close> and \<^verbatim>\<open>ABC123\<close>.\<close>

theorem C4_ansv_format_amended_witness:
  "fetchANSV net_down ''AB123CD'' = (Inl ansv_unsupported_format, [])
   \<and> (\<exists>rest. snd (fetchANSV net_down ''ABC123'') = Get ansv_page_url # rest)"
proof -
  have m: "mercosur_format ''AB123CD''"
    by (simp add: mercosur_format_def is_upper_def is_digit_def)
  have o: "old_format ''ABC123''"
    by (simp add: old_format_def is_upper_def is_digit_def)
  from m C4_ansv_format_amended [of "''AB123CD''" net_down]
  have 1: "fetchANSV net_down ''AB123CD'' = (Inl ansv_unsupported_format, [])" by blast
  from o C4_ansv_format_amended [of "''ABC123''" net_down]
  have 2: "\<exists>rest. snd (fetchANSV net_down ''ABC123'') = Get ansv_page_url # rest" by blast
  from 1 2 show ?thesis by blast
qed

subsection \<open>Failure propagation and dispatch\<close>

lemma select_adapter_unknown: "fuente \<notin> set known_sources \<Longrightarrow> select_adapter fuente = FetchANSV"
  by (simp add: known_sources_def select_adapter_def)

lemma server_select_adapter_unknown:
  "fuente \<notin> set server_known_sources \<Longrightarrow> server_select_adapter fuente = FetchANSV"
  by (simp add: server_known_sources_def server_select_adapter_def)

lemma select_adapter_ansv:
  "select_adapter ''ansv'' = FetchANSV" "server_select_adapter ''ansv'' = FetchANSV"
  by (simp_all add: select_adapter_def server_select_adapter_def)

lemma select_adapter_distinct:
  "distinct (map select_adapter known_sources)"
  "distinct (map server_select_adapter server_known_sources)"
  by (simp_all add: known_sources_def select_adapter_def server_known_sources_def
      server_select_adapter_def)











text \<open>
  C6. A source identifier outside the known set selects \<^verbatim>\<open>fetchANSV\<close>, and the
  handler then calls the same adapter on the same argument as for the literal
  \<^verbatim>\<open>ansv\<close> and as for no \<^verbatim>\<open>fuente\<close> at all; the known identifiers select
  pairwise different adapters. Both servers.
\<close>

theorem C6_dispatch_fallback:
  "(fuente \<notin> set known_sources \<longrightarrow>
      select_adapter fuente = FetchANSV
      \<and> invocation upper select_adapter dominio (Some fuente)
          = invocation upper select_adapter dominio (Some ''ansv'')
      \<and> invocation upper select_adapter dominio (Some fuente)
          = invocation upper select_adapter dominio None)
   \<and> (fuente \<notin> set server_known_sources \<longrightarrow>
        server_select_adapter fuente = FetchANSV
        \<and> invocation upper server_select_adapter dominio (Some fuente)
            = invocation upper server_select_adapter dominio (Some ''ansv'')
        \<and> invocation upper server_select_adapter dominio (Some fuente)
            = invocation upper server_select_adapter dominio None)
   \<and> distinct (map select_adapter known_sources)
   \<and> distinct (map server_select_adapter server_known_sources)"
  by (simp add: select_adapter_unknown server_select_adapter_unknown select_adapter_ansv
      select_adapter_distinct invocation_def fuente_or_default_def split: option.splits)

text \<open>C6, at \<^verbatim>\<open>__unknown__\<close>, and at \<^verbatim>\<open>posadas\<close> for \<^verbatim>\<open>server.js\<close>.\<close>

theorem C6_dispatch_fallback_witness:
  "select_adapter ''__unknown__'' = FetchANSV
   \<and> invocation ascii_upper select_adapter (Some ''abc123'') (Some ''__unknown__'')
       = Some (FetchANSV, ''ABC123'')
   \<and> invocation ascii_upper select_adapter (Some ''abc123'') (Some ''ansv'')
       = Some (FetchANSV, ''ABC123'')
   \<and> server_select_adapter ''posadas'' = FetchANSV"
proof -
  have u: "''__unknown__'' \<notin> set known_sources"
    by (simp add: known_sources_def)
  have p: "''posadas'' \<notin> set server_known_sources"
    by (simp add: server_known_sources_def)
  have i: "invocation ascii_upper select_adapter (Some ''abc123'') (Some ''ansv'')
             = Some (FetchANSV, ''ABC123'')"
    by (simp add: invocation_def accepted_def clean_dominio_def ascii_upper_def
        remove_space.simps space_width_def space_chars_def fuente_or_default_def
        select_adapter_def mercosur_format_def old_format_def is_upper_def is_digit_def)
  from u C6_dispatch_fallback [of "''__unknown__''" ascii_upper "Some ''abc123''"]
  have 1: "select_adapter ''__unknown__'' = FetchANSV"
    and 2: "invocation ascii_upper select_adapter (Some ''abc123'') (Some ''__unknown__'')
             = invocation ascii_upper select_adapter (Some ''abc123'') (Some ''ansv'')"
    by simp_all
  from p C6_dispatch_fallback [of "''posadas''" ascii_upper "Some ''abc123''"]
  have 3: "server_select_adapter ''posadas'' = FetchANSV"
    by simp
  from 1 2 3 i show ?thesis by simp
qed

subsection \<open>Padding of the symmetric codec\<close>

lemma padded_length_div: "padded_length n = (n + 15) div 16 * 16"
proof -
  have c: "\<lceil>rat_of_nat n / 16\<rceil> = - (- int n div 16)"
    using ceiling_divide_eq_div [of "int n" 16, where 'a = rat] by simp
  have "- (- int n div 16) = int ((n + 15) div 16)"
    by (simp add: zdiv_int)
  then have "nat \<lceil>rat_of_nat n / 16\<rceil> = (n + 15) div 16"
    using c by simp
  then show ?thesis
    unfolding padded_length_def by simp
qed

lemma padded_length_ge: "n \<le> padded_length n"
  unfolding padded_length_div by presburger

lemma length_zero_pad: "length (zero_pad bs) = padded_length (length bs)"
  using padded_length_ge [of "length bs"] by (simp add: zero_pad_def)

lemma zero_pad_prefix: "take (length bs) (zero_pad bs) = bs"
  by (simp add: zero_pad_def)

lemma zero_pad_suffix: "set (drop (length bs) (zero_pad bs)) \<subseteq> {0}"
  by (auto simp: zero_pad_def)

lemma length_hex_encode: "length (hex_encode bs) = 2 * length bs"
  by (induction bs) (simp_all add: hex_encode_def)

lemma length_ecb:
  assumes "\<And>b. length b = 16 \<Longrightarrow> length (f b) = 16"
  shows "16 dvd length bs \<Longrightarrow> length (concat (map f (blocks16 bs))) = length bs"
proof (induction bs rule: blocks16.induct)
  case (1 bs)
  show ?case
  proof (cases "bs = []")
    case True
    then show ?thesis by (simp add: blocks16.simps)
  next
    case False
    then have "0 < length bs" by simp
    with "1.prems" have len: "16 \<le> length bs"
      by (simp add: dvd_imp_le)
    then have t: "length (take 16 bs) = 16" by simp
    from "1.prems" len have "16 dvd length (drop 16 bs)"
      by (simp add: dvd_diff_nat)
    with "1.IH" False have "length (concat (map f (blocks16 (drop 16 bs)))) = length bs - 16"
      by simp
    with False t len assms [OF t] show ?thesis
      by (subst blocks16.simps) simp
  qed
qed

text \<open>
  C7 (as stated, refuted). The claim has every plaintext shorter than one block padded
  to exactly 16 bytes. The empty plaintext is shorter than one block, and
  \<^verbatim>\<open>Math.ceil(0 / 16) * 16\<close> is 0: it is padded to no byte at all.
\<close>

theorem C7_empty_plaintext_counterexample:
  "length ([] :: string) < 16
   \<and> length (zero_pad (ascii_bytes [])) = 0
   \<and> length (zero_pad (ascii_bytes [])) \<noteq> 16
   \<and> gxEncrypt toy_block [] toy_key = Inr []"
  by (simp add: length_zero_pad padded_length_div ascii_bytes_def gxEncrypt_def zero_pad_def
      toy_key_def hex_value_def blocks16.simps hex_encode_def)

text \<open>
  C7 (amended). \<^verbatim>\<open>gxEncrypt\<close> zero-pads the plaintext bytes up to the least multiple
  of 16 that holds them (a plaintext of a whole number of blocks, the empty one
  included, gets no padding), and encrypts block by block with no chaining and no IV.
  Every plaintext of 1 to 16 bytes is padded to exactly 16 bytes, a 20-byte plaintext
  to 32 bytes, and the ciphertext's byte length, half the length of the hex output, is
  that of the padded plaintext, a multiple of 16. The block function is any function
  that maps 16-byte blocks to 16-byte blocks, as AES-128 does; a key that is not 16
  bytes is rejected.
\<close>

theorem C7_padding_amended:
  assumes "\<And>key block. length block = 16 \<Longrightarrow> length (aes key block) = 16"
  shows
    "take (length plaintext) (zero_pad (ascii_bytes plaintext)) = ascii_bytes plaintext
     \<and> set (drop (length plaintext) (zero_pad (ascii_bytes plaintext))) \<subseteq> {0}
     \<and> length (zero_pad (ascii_bytes plaintext)) = (length plaintext + 15) div 16 * 16
     \<and> 16 dvd length (zero_pad (ascii_bytes plaintext))
     \<and> (0 < length plaintext \<and> length plaintext \<le> 16 \<longrightarrow>
          length (zero_pad (ascii_bytes plaintext)) = 16)
     \<and> (length plaintext = 20 \<longrightarrow> length (zero_pad (ascii_bytes plaintext)) = 32)
     \<and> (plaintext = [] \<longrightarrow> zero_pad (ascii_bytes plaintext) = [])
     \<and> (length (hex_decode hexKey) = 16 \<longrightarrow>
          gxEncrypt aes plaintext hexKey = Inr (hex_encode (gx_cipher_bytes aes plaintext hexKey))
          \<and> length (gx_cipher_bytes aes plaintext hexKey)
              = length (zero_pad (ascii_bytes plaintext))
          \<and> 16 dvd length (gx_cipher_bytes aes plaintext hexKey)
          \<and> length (hex_encode (gx_cipher_bytes aes plaintext hexKey))
              = 2 * length (gx_cipher_bytes aes plaintext hexKey))
     \<and> (length (hex_decode hexKey) \<noteq> 16 \<longrightarrow>
          gxEncrypt aes plaintext hexKey = Inl invalid_key_length)"
proof -
  let ?p = "zero_pad (ascii_bytes plaintext)"
  have n: "length (ascii_bytes plaintext) = length plaintext"
    by (simp add: ascii_bytes_def)
  have len: "length ?p = (length plaintext + 15) div 16 * 16"
    by (simp add: length_zero_pad padded_length_div n)
  have dvd: "16 dvd length ?p"
    by (simp add: len)
  have pre: "take (length plaintext) ?p = ascii_bytes plaintext"
    using zero_pad_prefix [of "ascii_bytes plaintext"] by (simp add: n)
  have suf: "set (drop (length plaintext) ?p) \<subseteq> {0}"
    using zero_pad_suffix [of "ascii_bytes plaintext"] by (simp add: n)
  have one: "0 < length plaintext \<and> length plaintext \<le> 16 \<longrightarrow> length ?p = 16"
    unfolding len by presburger
  have twenty: "length plaintext = 20 \<longrightarrow> length ?p = 32"
    unfolding len by simp
  have empty: "plaintext = [] \<longrightarrow> ?p = []"
    using len by auto
  have ecb: "length (gx_cipher_bytes aes plaintext hexKey) = length ?p"
    unfolding gx_cipher_bytes_def using length_ecb [OF assms dvd] by simp
  have enc: "length (hex_decode hexKey) = 16 \<longrightarrow>
      gxEncrypt aes plaintext hexKey = Inr (hex_encode (gx_cipher_bytes aes plaintext hexKey))"
    by (simp add: gxEncrypt_def gx_cipher_bytes_def)
  have bad: "length (hex_decode hexKey) \<noteq> 16 \<longrightarrow>
      gxEncrypt aes plaintext hexKey = Inl invalid_key_length"
    by (simp add: gxEncrypt_def)
  from pre suf len dvd one twenty empty ecb enc bad length_hex_encode show ?thesis
    by simp
qed

text \<open>
  C7, at the plaintext the adapter encrypts (\<^verbatim>\<open>gxfullajaxEvt\<close>, 13 bytes) and at a
  20-byte plaintext.
\<close>

theorem C7_padding_amended_witness:
  "length (zero_pad (ascii_bytes ''gxfullajaxEvt'')) = 16
   \<and> length (zero_pad (ascii_bytes ''01234567890123456789'')) = 32
   \<and> gxEncrypt toy_block ''gxfullajaxEvt'' toy_key
       = Inr (hex_encode (gx_cipher_bytes toy_block ''gxfullajaxEvt'' toy_key))
   \<and> length (hex_encode (gx_cipher_bytes toy_block ''gxfullajaxEvt'' toy_key)) = 32
   \<and> gxEncrypt toy_block ''gxfullajaxEvt'' ''0001'' = Inl invalid_key_length"
proof -
  have b: "\<And>key block. length block = 16 \<Longrightarrow> length (toy_block key block) = 16"
    by (simp add: toy_block_def)
  have k: "length (hex_decode toy_key) = 16"
    by (simp add: toy_key_def hex_value_def)
  have k2: "length (hex_decode ''0001'') \<noteq> 16"
    by (simp add: hex_value_def)
  have l1: "0 < length ''gxfullajaxEvt'' \<and> length ''gxfullajaxEvt'' \<le> 16" by simp
  have l2: "length ''01234567890123456789'' = 20" by simp
  note w1 = C7_padding_amended
    [where aes = toy_block and plaintext = "''gxfullajaxEvt''" and hexKey = toy_key, OF b]
  note w2 = C7_padding_amended
    [where aes = toy_block and plaintext = "''01234567890123456789''" and hexKey = toy_key, OF b]
  note w3 = C7_padding_amended
    [where aes = toy_block and plaintext = "''gxfullajaxEvt''" and hexKey = "''0001''", OF b]
  from w1 l1 have 1: "length (zero_pad (ascii_bytes ''gxfullajaxEvt'')) = 16" by blast
  from w2 l2 have 2: "length (zero_pad (ascii_bytes ''01234567890123456789'')) = 32" by blast
  from w1 k have 3: "gxEncrypt toy_block ''gxfullajaxEvt'' toy_key
       = Inr (hex_encode (gx_cipher_bytes toy_block ''gxfullajaxEvt'' toy_key))"
    and 4: "length (hex_encode (gx_cipher_bytes toy_block ''gxfullajaxEvt'' toy_key))
       = 2 * length (zero_pad (ascii_bytes ''gxfullajaxEvt''))"
    by simp_all
  from w3 k2 have 5: "gxEncrypt toy_block ''gxfullajaxEvt'' ''0001'' = Inl invalid_key_length"
    by blast
  from 1 2 3 4 5 show ?thesis by simp
qed

subsection \<open>Null, never the empty string\<close>

lemma col_or_null_not_empty: "col_or_null cols k \<noteq> JStr []"
  by (simp add: col_or_null_def)

lemma or_chain_null_not_empty: "or_chain vs JNull \<noteq> JStr []"
  by (induction vs) auto

lemma or_chain_default_not_empty: "d \<noteq> JStr [] \<Longrightarrow> or_chain vs d \<noteq> JStr []"
  by (induction vs) auto

lemma row_jurisdiccion_not_empty:
  "jurisdiccion (ansv_row cols) \<noteq> JStr []"
  "jurisdiccion (posadas_row bodyText cols) \<noteq> JStr []"
  "jurisdiccion (rosario_row cols) \<noteq> JStr []"
  by (simp_all add: ansv_row_def posadas_row_def rosario_row_def js_or_def col_or_null_def)

lemma item_jurisdiccion_not_empty:
  "ansv_item i = Inr r \<Longrightarrow> jurisdiccion r \<noteq> JStr []"
  "pba_item i = Inr r \<Longrightarrow> jurisdiccion r \<noteq> JStr []"
  "salta_item B i = Inr r \<Longrightarrow> jurisdiccion r \<noteq> JStr []"
  by (cases "readable i";
      auto simp add: ansv_item_def pba_item_def salta_item_def bind_err_Inr
        or_chain_default_not_empty simp del: or_chain.simps)+

text \<open>
  C8 (the code departs from the claim). \<^verbatim>\<open>fetchSalta\<close> builds \<^verbatim>\<open>acta\<close> as
  \<^verbatim>\<open>String(i.numeroObligacionImpuesto || i.acta || '')\<close>: for an item with neither
  field the record's \<^verbatim>\<open>acta\<close> is the empty string, where every other site and
  every other field of this record gives \<^verbatim>\<open>null\<close>.
\<close>

theorem C8_salta_missing_acta_is_empty_string:
  "salta_item B (JObj []) =
     Inr \<lparr> acta = JStr [], fecha = JNull, descripcion = JNull, lugar = JNull,
           importe = JNull, estado = JStr ''pendiente'',
           jurisdiccion = JStr ''Salta Capital'' \<rparr>"
  by (simp add: salta_item_def ToString_def bind_err_def join_truthy_def importe_item_def
      importe_json_def parseFloat_val_def estado_json_def toLowerCase_val_def lower_defs
      num_or_null_def js_or_def)

subsection \<open>The secondary shape of fetchANSV\<close>

lemma ansv_parse_fallback:
  "ansv_table res = [] \<Longrightarrow> js_includes (html res) ''{'' \<Longrightarrow>
     ansv_parse res = ansv_json_fallback res"
  by (simp add: ansv_parse_def)

lemma ansv_json_fallback_parse_failure:
  "parsed_json res = None \<Longrightarrow> ansv_json_fallback res = []"
  by (simp add: ansv_json_fallback_def)

lemma server_ansv_parse_no_rows:
  "ansv_table home = [] \<Longrightarrow> server_ansv_parse home = Inl res_not_defined"
  by (simp add: server_ansv_parse_def)

lemma pushed_all: "pushed_until_throw (map Inr xs) = xs"
  by (induction xs) simp_all

lemma ansv_json_fallback_success:
  assumes "parsed_json res = Some json" and "readable json"
    and "or_chain [get_prop json ''infracciones'', get_prop json ''data'',
                   get_prop json ''items''] (JArr []) = JArr list"
    and "map ansv_item list = map Inr records"
  shows "ansv_json_fallback res = records"
  using assms by (simp add: ansv_json_fallback_def pushed_all del: or_chain.simps)

text \<open>
  C9 (the code departs from the claim). In \<^verbatim>\<open>backend-server.js\<close> the fallback is
  total: \<open>ansv_parse\<close> returns a list on every response. In \<^verbatim>\<open>server.js\<close> the
  same fallback tests \<^verbatim>\<open>res.data.includes('{')\<close> with no \<^verbatim>\<open>res\<close> in scope:
  on the body \<^verbatim>\<open>{}\<close>, which has no table row, the adapter throws a
  \<^verbatim>\<open>ReferenceError\<close> instead of trying the JSON shape.
\<close>

theorem C9_server_ansv_reference_error:
  "fst (server_fetchANSV (net_serving empty_object_body) ''ABC123'') = Inl res_not_defined"
  by (simp add: server_fetchANSV_def server_ansv_parse_def ansv_table_def net_serving_def
      empty_object_body_def blank_page_def lower_defs)

subsection \<open>Importe is null or nonzero\<close>

lemma num_or_null_ok: "null_or_nonzero (num_or_null n)"
  by (simp add: num_or_null_def js_or_def)

lemma importe_row_ok: "null_or_nonzero (importe_row site cols)"
  by (cases site) (simp_all add: importe_dot_def importe_comma_def num_or_null_ok)

lemma importe_card_ok: "null_or_nonzero (importe_card g)"
  by (simp add: importe_card_def importe_comma_def num_or_null_ok)

lemma importe_json_ok: "importe_json names i = Inr v \<Longrightarrow> null_or_nonzero v"
  by (auto simp: importe_json_def bind_err_Inr num_or_null_ok)

lemma importe_item_ok: "importe_item site i = Inr v \<Longrightarrow> null_or_nonzero v"
  by (auto simp: importe_item_def split: if_splits dest: importe_json_ok)

lemma ansv_item_importe: "ansv_item i = Inr r \<Longrightarrow> null_or_nonzero (importe r)"
  using ansv_item_fields importe_item_ok by blast

lemma pba_item_importe: "pba_item i = Inr r \<Longrightarrow> null_or_nonzero (importe r)"
  using pba_item_fields importe_item_ok by blast

lemma salta_item_importe: "salta_item B i = Inr r \<Longrightarrow> null_or_nonzero (importe r)"
  using salta_item_fields importe_item_ok by blast

lemma row_records_importe:
  "null_or_nonzero (importe (ansv_row cols))"
  "null_or_nonzero (importe (posadas_row bt cols))"
  "null_or_nonzero (importe (rosario_row cols))"
  by (simp_all add: ansv_row_def posadas_row_def rosario_row_def importe_row_ok
      del: importe_row.simps)

text \<open>
  C10. The importe of every record is \<^verbatim>\<open>null\<close> or a number that is not zero: every
  construction site ends its importe expression in \<^verbatim>\<open>|| null\<close>, which turns zero
  and \<^verbatim>\<open>NaN\<close> into \<^verbatim>\<open>null\<close>. This holds at the ten table sites, the card site
  and the fourteen JSON sites of the two servers, and so in the records the builders
  return; an amount of zero gives \<^verbatim>\<open>null\<close>.
\<close>

theorem C10_importe_null_or_nonzero:
  "null_or_nonzero (importe_row rsite cols)
   \<and> null_or_nonzero (importe_card g)
   \<and> (importe_item jsite i = Inr v \<longrightarrow> null_or_nonzero v)
   \<and> null_or_nonzero (importe (ansv_row cols))
   \<and> null_or_nonzero (importe (posadas_row bodyText cols))
   \<and> null_or_nonzero (importe (rosario_row cols))
   \<and> (ansv_item i = Inr r \<longrightarrow> null_or_nonzero (importe r))
   \<and> (pba_item i = Inr r \<longrightarrow> null_or_nonzero (importe r))
   \<and> (salta_item B i = Inr r \<longrightarrow> null_or_nonzero (importe r))
   \<and> importe_row rsite [''A-1'', ''2024-01-01'', ''Exceso'', ''Ruta 9'', ''$ 0.00''] = JNull
   \<and> importe_item jsite (JObj [(''importe'', JNum (Fin 0))]) = Inr JNull"
proof (intro conjI impI)
  show "importe_row rsite [''A-1'', ''2024-01-01'', ''Exceso'', ''Ruta 9'', ''$ 0.00''] = JNull"
    by (cases rsite) (simp_all add: col_or_empty_def importe_dot_def importe_comma_def parse_defs)
  show "importe_item jsite (JObj [(''importe'', JNum (Fin 0))]) = Inr JNull"
    by (cases jsite)
      (simp_all add: importe_item_def importe_json_def parseFloat_val_def bind_err_def
        num_or_null_def js_or_def)
qed (simp_all add: importe_row_ok importe_card_ok importe_item_ok row_records_importe
      ansv_item_importe pba_item_importe salta_item_importe)

text \<open>C10, at a JSON item with an amount and at one with a text that does not parse.\<close>

theorem C10_importe_null_or_nonzero_witness:
  "importe_item PBA_json (JObj [(''monto'', JStr ''12.50'')]) = Inr (JNum (Fin (125 / 10)))
   \<and> null_or_nonzero (JNum (Fin (125 / 10)))
   \<and> importe_item Chaco_caminera (JObj [(''importe_1vto'', JStr ''gratis'')]) = Inr JNull
   \<and> null_or_nonzero JNull"
proof -
  have a: "importe_item PBA_json (JObj [(''monto'', JStr ''12.50'')]) = Inr (JNum (Fin (125 / 10)))"
    by (simp add: importe_item_def importe_json_def parseFloat_val_def bind_err_def parse_defs)
  have b: "importe_item Chaco_caminera (JObj [(''importe_1vto'', JStr ''gratis'')]) = Inr JNull"
    by (simp add: importe_item_def importe_json_def parseFloat_val_def bind_err_def parse_defs)
  from a C10_importe_null_or_nonzero
    [of _ _ _ PBA_json "JObj [(''monto'', JStr ''12.50'')]" "JNum (Fin (125 / 10))"]
  have 1: "null_or_nonzero (JNum (Fin (125 / 10)))" by blast
  from b C10_importe_null_or_nonzero
    [of _ _ _ Chaco_caminera "JObj [(''importe_1vto'', JStr ''gratis'')]" JNull]
  have 2: "null_or_nonzero JNull" by blast
  from a b 1 2 show ?thesis by blast
qed

end
